theory Spec2Isabelle
  imports Complex_Main
begin

section \<open>Numeric values of the notebooks\<close>

text \<open>
  The notebooks compute with NumPy double precision numbers. The model computes with
  exact reals and keeps the three non-finite values a float division by zero
  produces, so that a statistic that is not a number is a value of the model and
  not an unspecified real. Rounding and overflow are outside the model, and zero is
  the positive zero.
\<close>

datatype flt = Fin real | PInf | NInf | NaN

definition fdiv :: "real \<Rightarrow> real \<Rightarrow> flt" where
  "fdiv x y =
     (if y \<noteq> 0 then Fin (x / y)
      else if 0 < x then PInf else if x < 0 then NInf else NaN)"

fun fadd :: "flt \<Rightarrow> flt \<Rightarrow> flt" where
  "fadd (Fin x) (Fin y) = Fin (x + y)"
| "fadd NaN _ = NaN"
| "fadd _ NaN = NaN"
| "fadd PInf NInf = NaN"
| "fadd NInf PInf = NaN"
| "fadd PInf _ = PInf"
| "fadd _ PInf = PInf"
| "fadd NInf _ = NInf"
| "fadd _ NInf = NInf"

definition fsum :: "flt list \<Rightarrow> flt" where
  "fsum xs = foldr fadd xs (Fin 0)"

text \<open>\<open>x > r\<close> for a float \<open>x\<close>: every comparison with NaN is false.\<close>

fun flt_gt :: "flt \<Rightarrow> real \<Rightarrow> bool" where
  "flt_gt (Fin x) r = (r < x)"
| "flt_gt PInf r = True"
| "flt_gt NInf r = False"
| "flt_gt NaN r = False"


text \<open>
  A survival function of the statistics library is a parameter of the model, a function
  on the reals. Applied to a float it takes its limits at the infinities, and NaN stays
  NaN. Degrees of freedom outside the domain of a distribution, for which the library
  returns NaN, are not modelled.
\<close>

fun sf_flt :: "(real \<Rightarrow> real) \<Rightarrow> flt \<Rightarrow> flt" where
  "sf_flt sf (Fin x) = Fin (sf x)"
| "sf_flt sf PInf = Fin 0"
| "sf_flt sf NInf = Fin 1"
| "sf_flt sf NaN = NaN"

text \<open>\<open>c * x\<close> for a positive constant \<open>c\<close>, and \<open>1 - x\<close>.\<close>

fun fscale :: "real \<Rightarrow> flt \<Rightarrow> flt" where
  "fscale c (Fin x) = Fin (c * x)"
| "fscale c PInf = PInf"
| "fscale c NInf = NInf"
| "fscale c NaN = NaN"

fun fone_minus :: "flt \<Rightarrow> flt" where
  "fone_minus (Fin x) = Fin (1 - x)"
| "fone_minus PInf = NInf"
| "fone_minus NInf = PInf"
| "fone_minus NaN = NaN"

text \<open>The exceptions a cell of the notebooks can raise.\<close>

datatype error = ValueError | TypeError | NameError | KeyError

section \<open>Library calls of the chi-squared notebook\<close>

text \<open>
  The notebook \<^verbatim>\<open>chi_squared.ipynb\<close> calls \<^verbatim>\<open>scipy.stats.chi2_contingency\<close> and
  \<^verbatim>\<open>scipy.stats.chisquare\<close> with their default arguments. Both end in SciPy's
  \<^verbatim>\<open>power_divergence\<close> with \<^verbatim>\<open>lambda_\<close> equal to one (Pearson). The definitions
  below follow the reference implementation of these functions for the arguments the
  notebook passes; the chi-squared survival function \<open>sf\<close> (taking the degrees of
  freedom first) is a parameter.
\<close>

type_synonym table = "real list list"

text \<open>
  The relative tolerance of the check of the sums, \<^verbatim>\<open>rtol = 1e-8\<close>. Nothing below
  depends on its value beyond its sign.
\<close>

definition rtol :: real where
  "rtol = 1 / 10 ^ 8"

text \<open>
  \<^verbatim>\<open>relative_diff = abs(f_obs_sum - f_exp_sum) / minimum(f_obs_sum, f_exp_sum)\<close> and
  \<^verbatim>\<open>diff_gt_tol = (relative_diff > rtol).any()\<close>
\<close>

definition diff_gt_tol :: "real \<Rightarrow> real \<Rightarrow> bool" where
  "diff_gt_tol f_obs_sum f_exp_sum =
     flt_gt (fdiv \<bar>f_obs_sum - f_exp_sum\<bar> (min f_obs_sum f_exp_sum)) rtol"

text \<open>\<^verbatim>\<open>terms = (f_obs - f_exp)**2 / f_exp\<close>\<close>

definition terms :: "real list \<Rightarrow> real list \<Rightarrow> flt list" where
  "terms f_obs f_exp = map2 (\<lambda>ob ex. fdiv ((ob - ex)\<^sup>2) ex) f_obs f_exp"

text \<open>
  \<^verbatim>\<open>power_divergence(f_obs, f_exp, ddof, axis=None, lambda_=1)\<close> on two arrays of
  the same shape, flattened: the check of the two sums, the statistic, and the
  p-value with \<^verbatim>\<open>num_obs - 1 - ddof\<close> degrees of freedom.
\<close>

definition power_divergence ::
  "(real \<Rightarrow> real \<Rightarrow> real) \<Rightarrow> real list \<Rightarrow> real list \<Rightarrow> int \<Rightarrow> error + (flt \<times> flt)" where
  "power_divergence sf f_obs f_exp ddof =
     (if diff_gt_tol (sum_list f_obs) (sum_list f_exp) then Inl ValueError
      else
        let stat = fsum (terms f_obs f_exp);
            num_obs = int (length (terms f_obs f_exp))
        in Inr (stat, sf_flt (sf (real_of_int (num_obs - 1 - ddof))) stat))"

text \<open>
  NumPy broadcasting of two arrays of one dimension: equal lengths, or one of the two
  has length one and is repeated; any other pair of lengths raises.
\<close>

definition broadcast :: "real list \<Rightarrow> real list \<Rightarrow> error + (real list \<times> real list)" where
  "broadcast a b =
     (if length a = length b then Inr (a, b)
      else if length a = 1 then Inr (replicate (length b) (hd a), b)
      else if length b = 1 then Inr (a, replicate (length a) (hd b))
      else Inl ValueError)"

text \<open>
  \<^verbatim>\<open>chisquare(f_obs, f_exp)\<close> is \<^verbatim>\<open>power_divergence\<close> with \<^verbatim>\<open>ddof=0\<close>, on the
  two arrays broadcast against each other.
\<close>

definition chisquare ::
  "(real \<Rightarrow> real \<Rightarrow> real) \<Rightarrow> real list \<Rightarrow> real list \<Rightarrow> error + (flt \<times> flt)" where
  "chisquare sf f_obs f_exp =
     (case broadcast f_obs f_exp of
        Inl e \<Rightarrow> Inl e
      | Inr (ob, ex) \<Rightarrow> power_divergence sf ob ex 0)"

subsection \<open>The contingency table test\<close>

definition ncols :: "table \<Rightarrow> nat" where
  "ncols observed = (case observed of [] \<Rightarrow> 0 | r # _ \<Rightarrow> length r)"

text \<open>A NumPy array of two dimensions: every row has the same length.\<close>

definition rect :: "table \<Rightarrow> bool" where
  "rect observed = list_all (\<lambda>r. length r = ncols observed) observed"

definition row_sums :: "table \<Rightarrow> real list" where
  "row_sums observed = map sum_list observed"

definition col_sums :: "table \<Rightarrow> real list" where
  "col_sums observed =
     map (\<lambda>j. sum_list (map (\<lambda>r. r ! j) observed)) [0..<ncols observed]"

definition grand_total :: "table \<Rightarrow> real" where
  "grand_total observed = sum_list (concat observed)"

text \<open>
  \<^verbatim>\<open>expected_freq\<close>: the product of the marginal sums divided by the grand total.
  It is called where the grand total is not zero.
\<close>

definition expected_freq :: "table \<Rightarrow> table" where
  "expected_freq observed =
     map (\<lambda>ri. map (\<lambda>cj. ri * cj / grand_total observed) (col_sums observed))
       (row_sums observed)"

text \<open>
  Yates' correction for continuity:
  \<^verbatim>\<open>diff = expected - observed; direction = sign(diff);\<close>
  \<^verbatim>\<open>magnitude = minimum(0.5, abs(diff)); observed = observed + magnitude * direction\<close>
\<close>

definition yates_cell :: "real \<Rightarrow> real \<Rightarrow> real" where
  "yates_cell ob ex = ob + min (1 / 2) \<bar>ex - ob\<bar> * sgn (ex - ob)"

definition yates :: "table \<Rightarrow> table \<Rightarrow> table" where
  "yates observed expected = map2 (map2 yates_cell) observed expected"

record chi2_result =
  statistic :: flt
  pvalue :: flt
  dof :: int
  expected_freqs :: "flt list list"

text \<open>
  \<^verbatim>\<open>chi2_contingency(observed)\<close> with \<^verbatim>\<open>correction=True\<close> and \<^verbatim>\<open>lambda_=None\<close>,
  the defaults the notebook leaves in place. The steps of the library function:

  \<^verbatim>\<open>if np.any(observed < 0): raise ValueError(...)\<close>

  \<^verbatim>\<open>if observed.size == 0: raise ValueError(...)\<close>

  \<^verbatim>\<open>expected = expected_freq(observed)\<close>

  \<^verbatim>\<open>if np.any(expected == 0): raise ValueError(...)\<close>

  \<^verbatim>\<open>dof = expected.size - sum(expected.shape) + expected.ndim - 1\<close>

  \<^verbatim>\<open>if dof == 0: chi2 = 0.0; p = 1.0\<close>

  \<^verbatim>\<open>else: if dof == 1 and correction: (Yates' correction of observed)\<close>

  \<^verbatim>\<open>chi2, p = power_divergence(observed, expected,\<close>
  \<^verbatim>\<open>    ddof=observed.size - 1 - dof, axis=None, lambda_=lambda_)\<close>

  A table whose grand total is zero has an expected table of NaN, which no
  comparison finds equal to zero, and a NaN statistic.
\<close>

definition chi2_contingency ::
  "(real \<Rightarrow> real \<Rightarrow> real) \<Rightarrow> table \<Rightarrow> error + chi2_result" where
  "chi2_contingency sf observed =
     (if list_ex (\<lambda>x. x < 0) (concat observed) then Inl ValueError
      else if length (concat observed) = 0 then Inl ValueError
      else
        let d = int (length (concat observed))
                  - (int (length observed) + int (ncols observed)) + 2 - 1
        in
        if grand_total observed = 0 then
          Inr \<lparr>statistic = (if d = 0 then Fin 0 else NaN),
               pvalue = (if d = 0 then Fin 1 else NaN), dof = d,
               expected_freqs = map (map (\<lambda>_. NaN)) observed\<rparr>
        else
          let expected = expected_freq observed in
          if list_ex (\<lambda>x. x = 0) (concat expected) then Inl ValueError
          else if d = 0 then
            Inr \<lparr>statistic = Fin 0, pvalue = Fin 1, dof = d,
                 expected_freqs = map (map Fin) expected\<rparr>
          else
            let observed' = (if d = 1 then yates observed expected else observed) in
            (case power_divergence sf (concat observed') (concat expected)
                    (int (length (concat observed)) - 1 - d) of
               Inl e \<Rightarrow> Inl e
             | Inr (chi2, p) \<Rightarrow>
                 Inr \<lparr>statistic = chi2, pvalue = p, dof = d,
                      expected_freqs = map (map Fin) expected\<rparr>))"

subsection \<open>Standardised residuals\<close>

text \<open>
  \<^verbatim>\<open>residuals = (contingency - expected_contingency) / expected_contingency.pow(0.5)\<close>,
  cell by cell. The power of a negative number is NaN; an expected count that is not
  finite gives NaN for the quotient.
\<close>

fun residual_cell :: "real \<Rightarrow> flt \<Rightarrow> flt" where
  "residual_cell ob (Fin ex) = (if ex < 0 then NaN else fdiv (ob - ex) (sqrt ex))"
| "residual_cell ob PInf = NaN"
| "residual_cell ob NInf = NaN"
| "residual_cell ob NaN = NaN"

definition standardised_residuals :: "table \<Rightarrow> flt list list \<Rightarrow> flt list list" where
  "standardised_residuals contingency expected_contingency =
     map2 (map2 residual_cell) contingency expected_contingency"

subsection \<open>Goodness of fit\<close>

text \<open>
  \<^verbatim>\<open>expected = expected_dist * observed.sum()\<close> followed by
  \<^verbatim>\<open>chisquare(f_obs=observed, f_exp=expected)\<close>. The notebook fixes
  \<^verbatim>\<open>expected_dist = np.array([0.5, 0.5])\<close>.
\<close>

definition gof_expected :: "real list \<Rightarrow> real list \<Rightarrow> real list" where
  "gof_expected expected_dist observed = map (\<lambda>p. p * sum_list observed) expected_dist"

definition goodness_of_fit ::
  "(real \<Rightarrow> real \<Rightarrow> real) \<Rightarrow> real list \<Rightarrow> real list \<Rightarrow> error + (flt \<times> flt)" where
  "goodness_of_fit sf expected_dist observed =
     chisquare sf observed (gof_expected expected_dist observed)"

section \<open>Library calls of the ANOVA notebook\<close>

text \<open>
  \<^verbatim>\<open>scipy.stats.f_oneway\<close> and \<^verbatim>\<open>scipy.stats.levene\<close> on samples of one dimension.
  The survival function \<open>f_sf\<close> of the F distribution takes the two degrees of
  freedom first.
\<close>

definition mean :: "real list \<Rightarrow> real" where
  "mean xs = sum_list xs / real (length xs)"

definition square_of_sums :: "real list \<Rightarrow> real" where
  "square_of_sums xs = (sum_list xs)\<^sup>2"

definition sum_of_squares :: "real list \<Rightarrow> real" where
  "sum_of_squares xs = sum_list (map (\<lambda>x. x\<^sup>2) xs)"

text \<open>\<^verbatim>\<open>(_first(sample) == sample).all()\<close>\<close>

definition is_const :: "real list \<Rightarrow> bool" where
  "is_const sample = list_all (\<lambda>x. x = hd sample) sample"

text \<open>
  \<^verbatim>\<open>f_oneway(*samples)\<close>: fewer than two samples raise; an empty sample, or samples
  that all have length one, give NaN; otherwise the sums of squares are taken around
  the mean of all the data, and the result is overwritten when every sample is
  constant. The steps of the library function:

  \<^verbatim>\<open>alldata = np.concatenate(samples); bign = alldata.shape[axis]\<close>

  \<^verbatim>\<open>offset = alldata.mean(); alldata = alldata - offset\<close>

  \<^verbatim>\<open>normalized_ss = _square_of_sums(alldata) / bign\<close>

  \<^verbatim>\<open>sstot = _sum_of_squares(alldata) - normalized_ss\<close>

  \<^verbatim>\<open>ssbn = 0\<close>

  \<^verbatim>\<open>for sample in samples:\<close>
  \<^verbatim>\<open>    ssbn = ssbn + _square_of_sums(sample - offset) / sample.shape[axis]\<close>

  \<^verbatim>\<open>ssbn = ssbn - normalized_ss; sswn = sstot - ssbn\<close>

  \<^verbatim>\<open>dfbn = num_groups - 1; dfwn = bign - num_groups\<close>

  \<^verbatim>\<open>msb = ssbn / dfbn; msw = sswn / dfwn; f = msb / msw\<close>

  \<^verbatim>\<open>prob = special.fdtrc(dfbn, dfwn, f)\<close>

  \<^verbatim>\<open>if all_same_const: f = np.nan; prob = np.nan\<close>

  \<^verbatim>\<open>elif all_const: f = np.inf; prob = 0.0\<close>
\<close>

definition f_oneway ::
  "(real \<Rightarrow> real \<Rightarrow> real \<Rightarrow> real) \<Rightarrow> real list list \<Rightarrow> error + (flt \<times> flt)" where
  "f_oneway f_sf samples =
     (if length samples < 2 then Inl TypeError
      else if list_ex (\<lambda>s. length s = 0) samples then Inr (NaN, NaN)
      else if list_all (\<lambda>s. length s = 1) samples then Inr (NaN, NaN)
      else
        let num_groups = length samples;
            alldata = concat samples;
            bign = length alldata;
            all_const = list_all is_const samples;
            all_same_const = is_const alldata;
            offset = sum_list alldata / real bign;
            normalized_ss = square_of_sums (map (\<lambda>x. x - offset) alldata) / real bign;
            sstot = sum_of_squares (map (\<lambda>x. x - offset) alldata) - normalized_ss;
            ssbn = sum_list (map (\<lambda>s. square_of_sums (map (\<lambda>x. x - offset) s)
                                      / real (length s)) samples) - normalized_ss;
            sswn = sstot - ssbn;
            dfbn = real num_groups - 1;
            dfwn = real bign - real num_groups;
            msb = ssbn / dfbn;
            msw = sswn / dfwn;
            f = fdiv msb msw;
            prob = sf_flt (f_sf dfbn dfwn) f
        in if all_same_const then Inr (NaN, NaN)
           else if all_const then Inr (PInf, Fin 0)
           else Inr (f, prob))"

text \<open>
  \<^verbatim>\<open>np.median\<close>: the middle of the sorted sample, or the mean of the two middle
  values.
\<close>

definition median :: "real list \<Rightarrow> real" where
  "median xs =
     (let s = sort xs; n = length xs
      in if odd n then s ! (n div 2) else (s ! (n div 2 - 1) + s ! (n div 2)) / 2)"

text \<open>
  The \<^verbatim>\<open>center\<close> argument of \<^verbatim>\<open>levene\<close>; the notebooks leave the default
  \<^verbatim>\<open>'median'\<close>. The third value \<^verbatim>\<open>'trimmed'\<close> is not modelled.
\<close>

datatype center = Center_Mean | Center_Median

fun center_of :: "center \<Rightarrow> real list \<Rightarrow> real" where
  "center_of Center_Mean x = mean x"
| "center_of Center_Median x = median x"

text \<open>
  \<^verbatim>\<open>levene(*samples, center='median')\<close>: fewer than two samples raise, an empty
  sample gives NaN. The steps of the library function, with \<^verbatim>\<open>func\<close> the median or
  the mean:

  \<^verbatim>\<open>Ni[j] = len(samples[j]); Yci[j] = func(samples[j]); Ntot = np.sum(Ni)\<close>

  \<^verbatim>\<open>Zij[i] = abs(asarray(samples[i]) - Yci[i])\<close>

  \<^verbatim>\<open>Zbari[i] = np.mean(Zij[i]); Zbar += Zbari[i] * Ni[i]\<close>

  \<^verbatim>\<open>Zbar /= Ntot\<close>

  \<^verbatim>\<open>numer = (Ntot - k) * np.sum(Ni * (Zbari - Zbar)**2)\<close>

  \<^verbatim>\<open>dvar += np.sum((Zij[i] - Zbari[i])**2)\<close>

  \<^verbatim>\<open>denom = (k - 1.0) * dvar\<close>

  \<^verbatim>\<open>W = numer / denom; pval = distributions.f.sf(W, k - 1, Ntot - k)\<close>
\<close>

definition levene ::
  "(real \<Rightarrow> real \<Rightarrow> real \<Rightarrow> real) \<Rightarrow> center \<Rightarrow> real list list \<Rightarrow> error + (flt \<times> flt)" where
  "levene f_sf center samples =
     (let k = length samples in
      if k < 2 then Inl ValueError
      else if list_ex (\<lambda>s. length s = 0) samples then Inr (NaN, NaN)
      else
        let Ni = map (\<lambda>s. real (length s)) samples;
            Yci = map (center_of center) samples;
            Ntot = sum_list Ni;
            Zij = map2 (\<lambda>s yc. map (\<lambda>x. \<bar>x - yc\<bar>) s) samples Yci;
            Zbari = map mean Zij;
            Zbar = sum_list (map2 (\<lambda>zb n. zb * n) Zbari Ni) / Ntot;
            numer = (Ntot - real k) * sum_list (map2 (\<lambda>n zb. n * (zb - Zbar)\<^sup>2) Ni Zbari);
            dvar = sum_list (map2 (\<lambda>z zb. sum_list (map (\<lambda>x. (x - zb)\<^sup>2) z)) Zij Zbari);
            denom = (real k - 1) * dvar;
            W = fdiv numer denom;
            pval = sf_flt (f_sf (real k - 1) (Ntot - real k)) W
        in Inr (W, pval))"

section \<open>Library calls of the t-test notebook\<close>

text \<open>
  \<^verbatim>\<open>ttest_ind(a, b, equal_var=False)\<close>, Welch's test, the only form the notebook
  calls. The distribution function \<open>t_cdf\<close> of Student's t takes the degrees of
  freedom, a float, first. The variance has \<^verbatim>\<open>ddof=1\<close>.
\<close>

definition var1 :: "real list \<Rightarrow> real" where
  "var1 xs = sum_list (map (\<lambda>x. (x - mean xs)\<^sup>2) xs) / (real (length xs) - 1)"

record ttest_result =
  t_statistic :: flt
  t_pvalue :: flt
  t_df :: flt

text \<open>The two-sided p-value \<^verbatim>\<open>2 * sf(abs(t))\<close>.\<close>

fun two_sided :: "(real \<Rightarrow> real) \<Rightarrow> flt \<Rightarrow> flt" where
  "two_sided cdf (Fin t) = Fin (2 * (1 - cdf \<bar>t\<bar>))"
| "two_sided cdf PInf = Fin 0"
| "two_sided cdf NInf = Fin 0"
| "two_sided cdf NaN = NaN"

text \<open>
  With samples of one dimension and the default options no check of \<^verbatim>\<open>ttest_ind\<close>
  raises: an empty sample gives NaN throughout; a sample of one observation has a
  NaN variance, hence a NaN statistic, and the NaN degrees of freedom are replaced
  by one; two samples without variance divide by zero. The steps of the library
  function for \<^verbatim>\<open>equal_var=False\<close>:

  \<^verbatim>\<open>v1 = _var(a, axis, ddof=1); v2 = _var(b, axis, ddof=1)\<close>

  \<^verbatim>\<open>vn1 = v1 / n1; vn2 = v2 / n2\<close>

  \<^verbatim>\<open>df = (vn1 + vn2)**2 / (vn1**2 / (n1 - 1) + vn2**2 / (n2 - 1))\<close>

  \<^verbatim>\<open>df = np.where(np.isnan(df), 1, df)\<close>

  \<^verbatim>\<open>denom = np.sqrt(vn1 + vn2)\<close>

  \<^verbatim>\<open>d = mean1 - mean2; t = np.divide(d, denom)\<close>

  \<^verbatim>\<open>prob = _get_pvalue(t, distributions.t(df), alternative)\<close>
\<close>

definition ttest_ind ::
  "(flt \<Rightarrow> real \<Rightarrow> real) \<Rightarrow> real list \<Rightarrow> real list \<Rightarrow> error + ttest_result" where
  "ttest_ind t_cdf a b =
     (if length a = 0 \<or> length b = 0 then
        Inr \<lparr>t_statistic = NaN, t_pvalue = NaN, t_df = NaN\<rparr>
      else if length a = 1 \<or> length b = 1 then
        Inr \<lparr>t_statistic = NaN, t_pvalue = NaN, t_df = Fin 1\<rparr>
      else
        let n1 = real (length a); n2 = real (length b);
            v1 = var1 a; v2 = var1 b;
            vn1 = v1 / n1; vn2 = v2 / n2;
            df = (case fdiv ((vn1 + vn2)\<^sup>2) (vn1\<^sup>2 / (n1 - 1) + vn2\<^sup>2 / (n2 - 1)) of
                    NaN \<Rightarrow> Fin 1 | d \<Rightarrow> d);
            denom = sqrt (vn1 + vn2);
            t = fdiv (mean a - mean b) denom;
            prob = two_sided (t_cdf df) t
        in Inr \<lparr>t_statistic = t, t_pvalue = prob, t_df = df\<rparr>)"

text \<open>
  The cell that turns the two-sided p-value into a one-tailed one:
  \<^verbatim>\<open>if t_stat > 0: p_one_tailed = p_two_tailed / 2\<close>
  \<^verbatim>\<open>else: p_one_tailed = 1 - (p_two_tailed / 2)\<close>
\<close>

definition one_tailed :: "flt \<Rightarrow> flt \<Rightarrow> flt" where
  "one_tailed t_stat p_two_tailed =
     (if flt_gt t_stat 0 then fscale (1 / 2) p_two_tailed
      else fone_minus (fscale (1 / 2) p_two_tailed))"

section \<open>The cells of the notebooks\<close>

text \<open>
  A notebook is run from top to bottom in one kernel: every cell reads and binds global
  variables. A cell is a function from the environment to the new environment, or to
  the exception it raises; an unbound variable raises \<^verbatim>\<open>NameError\<close>. Cells that only
  plot or print bind none of the variables below and are left out.
\<close>

definition lookup :: "'a option \<Rightarrow> error + 'a" where
  "lookup v = (case v of None \<Rightarrow> Inl NameError | Some x \<Rightarrow> Inr x)"

fun run_cells :: "('e \<Rightarrow> error + 'e) list \<Rightarrow> 'e \<Rightarrow> error + 'e" where
  "run_cells [] env = Inr env"
| "run_cells (c # cs) env =
     (case c env of Inl e \<Rightarrow> Inl e | Inr env' \<Rightarrow> run_cells cs env')"

subsection \<open>The t-test notebook\<close>

text \<open>A data frame: its columns by name. \<^verbatim>\<open>df[df[key] == v][col]\<close> is the selection below.\<close>

type_synonym frame = "string \<rightharpoonup> real list"

definition select_where :: "frame \<Rightarrow> string \<Rightarrow> real \<Rightarrow> string \<Rightarrow> error + real list" where
  "select_where frm key v col =
     (case frm key of
        None \<Rightarrow> Inl KeyError
      | Some ks \<Rightarrow>
          (case frm col of
             None \<Rightarrow> Inl KeyError
           | Some cs \<Rightarrow> Inr (map snd (filter (\<lambda>(k, c). k = v) (zip ks cs)))))"

text \<open>The variable \<^verbatim>\<open>df\<close> holds a data frame, and later the degrees of freedom of a test.\<close>

datatype pyval = Frame frame | Float flt

record t_env =
  df_t :: "pyval option"
  group_0 :: "real list option"
  group_1 :: "real list option"
  group_2 :: "real list option"
  levene_stat :: "flt option"
  levene_p_stat :: "flt option"
  result :: "ttest_result option"
  t_stat :: "flt option"
  p_two_tailed :: "flt option"
  p_one_tailed :: "flt option"

definition t_env0 :: t_env where
  "t_env0 = \<lparr>df_t = None, group_0 = None, group_1 = None, group_2 = None,
     levene_stat = None, levene_p_stat = None, result = None, t_stat = None,
     p_two_tailed = None, p_one_tailed = None\<rparr>"

text \<open>\<^verbatim>\<open>dataset = datasets.load_...(as_frame=True); df = dataset.frame\<close>\<close>

definition cell_load :: "frame \<Rightarrow> t_env \<Rightarrow> error + t_env" where
  "cell_load dataset env = Inr (env\<lparr>df_t := Some (Frame dataset)\<rparr>)"

definition frame_of :: "pyval option \<Rightarrow> error + frame" where
  "frame_of v =
     (case lookup v of
        Inl e \<Rightarrow> Inl e
      | Inr (Frame f) \<Rightarrow> Inr f
      | Inr (Float _) \<Rightarrow> Inl TypeError)"

text \<open>
  \<^verbatim>\<open>group_1 = df[df["sex"] == 1]["target"]\<close>
  \<^verbatim>\<open>group_2 = df[df["sex"] == 2]["target"]\<close>
\<close>

definition cell_groups_diabetes :: "t_env \<Rightarrow> error + t_env" where
  "cell_groups_diabetes env =
     (case frame_of (df_t env) of
        Inl e \<Rightarrow> Inl e
      | Inr f \<Rightarrow>
          (case select_where f ''sex'' 1 ''target'' of
             Inl e \<Rightarrow> Inl e
           | Inr g1 \<Rightarrow>
               (case select_where f ''sex'' 2 ''target'' of
                  Inl e \<Rightarrow> Inl e
                | Inr g2 \<Rightarrow> Inr (env\<lparr>group_1 := Some g1, group_2 := Some g2\<rparr>))))"

text \<open>
  \<^verbatim>\<open>group_0 = df[df["target"] == 0]["mean radius"] # malignant\<close>
  \<^verbatim>\<open>group_1 = df[df["target"] == 1]["mean radius"] # benign\<close>
\<close>

definition cell_groups_cancer :: "t_env \<Rightarrow> error + t_env" where
  "cell_groups_cancer env =
     (case frame_of (df_t env) of
        Inl e \<Rightarrow> Inl e
      | Inr f \<Rightarrow>
          (case select_where f ''target'' 0 ''mean radius'' of
             Inl e \<Rightarrow> Inl e
           | Inr g0 \<Rightarrow>
               (case select_where f ''target'' 1 ''mean radius'' of
                  Inl e \<Rightarrow> Inl e
                | Inr g1 \<Rightarrow> Inr (env\<lparr>group_0 := Some g0, group_1 := Some g1\<rparr>))))"

text \<open>\<^verbatim>\<open>levene_stat, levene_p_stat = levene(group_1, group_2)\<close>\<close>

definition cell_levene_12 :: "(real \<Rightarrow> real \<Rightarrow> real \<Rightarrow> real) \<Rightarrow> t_env \<Rightarrow> error + t_env" where
  "cell_levene_12 f_sf env =
     (case lookup (group_1 env) of
        Inl e \<Rightarrow> Inl e
      | Inr g1 \<Rightarrow>
          (case lookup (group_2 env) of
             Inl e \<Rightarrow> Inl e
           | Inr g2 \<Rightarrow>
               (case levene f_sf Center_Median [g1, g2] of
                  Inl e \<Rightarrow> Inl e
                | Inr (w, p) \<Rightarrow> Inr (env\<lparr>levene_stat := Some w, levene_p_stat := Some p\<rparr>))))"

text \<open>\<^verbatim>\<open>levene_stat, levene_p_stat = levene(group_0, group_1)\<close>\<close>

definition cell_levene_01 :: "(real \<Rightarrow> real \<Rightarrow> real \<Rightarrow> real) \<Rightarrow> t_env \<Rightarrow> error + t_env" where
  "cell_levene_01 f_sf env =
     (case lookup (group_0 env) of
        Inl e \<Rightarrow> Inl e
      | Inr g0 \<Rightarrow>
          (case lookup (group_1 env) of
             Inl e \<Rightarrow> Inl e
           | Inr g1 \<Rightarrow>
               (case levene f_sf Center_Median [g0, g1] of
                  Inl e \<Rightarrow> Inl e
                | Inr (w, p) \<Rightarrow> Inr (env\<lparr>levene_stat := Some w, levene_p_stat := Some p\<rparr>))))"

text \<open>
  The test cell, which stands twice in the notebook with the same code, once in the
  one-tailed and once in the two-tailed section:
  \<^verbatim>\<open>result = ttest_ind(group_2, group_1, equal_var=False)\<close>
  \<^verbatim>\<open>t_stat, p_two_tailed, df = result.statistic, result.pvalue, result.df\<close>
\<close>

definition cell_ttest :: "(flt \<Rightarrow> real \<Rightarrow> real) \<Rightarrow> t_env \<Rightarrow> error + t_env" where
  "cell_ttest t_cdf env =
     (case lookup (group_2 env) of
        Inl e \<Rightarrow> Inl e
      | Inr g2 \<Rightarrow>
          (case lookup (group_1 env) of
             Inl e \<Rightarrow> Inl e
           | Inr g1 \<Rightarrow>
               (case ttest_ind t_cdf g2 g1 of
                  Inl e \<Rightarrow> Inl e
                | Inr r \<Rightarrow>
                    Inr (env\<lparr>result := Some r, t_stat := Some (t_statistic r),
                          p_two_tailed := Some (t_pvalue r),
                          df_t := Some (Float (t_df r))\<rparr>))))"

definition cell_one_tailed :: "t_env \<Rightarrow> error + t_env" where
  "cell_one_tailed env =
     (case lookup (t_stat env) of
        Inl e \<Rightarrow> Inl e
      | Inr t \<Rightarrow>
          (case lookup (p_two_tailed env) of
             Inl e \<Rightarrow> Inl e
           | Inr p \<Rightarrow> Inr (env\<lparr>p_one_tailed := Some (one_tailed t p)\<rparr>)))"

text \<open>
  The notebook from top to bottom: the diabetes data and the one-tailed section, then
  the breast cancer data and the two-tailed section.
\<close>

definition t_tests_notebook ::
  "(flt \<Rightarrow> real \<Rightarrow> real) \<Rightarrow> (real \<Rightarrow> real \<Rightarrow> real \<Rightarrow> real) \<Rightarrow> frame \<Rightarrow> frame \<Rightarrow> error + t_env" where
  "t_tests_notebook t_cdf f_sf diabetes breast_cancer =
     run_cells
       [cell_load diabetes, cell_groups_diabetes, cell_levene_12 f_sf, cell_ttest t_cdf,
        cell_one_tailed,
        cell_load breast_cancer, cell_groups_cancer, cell_levene_01 f_sf, cell_ttest t_cdf]
       t_env0"

subsection \<open>The chi-squared notebook\<close>

text \<open>
  The variable \<^verbatim>\<open>expected\<close> holds the table of expected counts of the independence
  test, and later the array of expected counts of the goodness-of-fit test.
\<close>

datatype arr = Arr1 "real list" | Arr2 "flt list list"


record chi_env =
  contingency :: "table option"
  chi2_stat :: "flt option"
  p_chi :: "flt option"
  df_chi :: "int option"
  expected :: "arr option"
  frequencies :: "flt list option"
  all_gt_one :: "bool option"
  num_lt_5 :: "nat option"
  perc_lt_5 :: "flt option"
  expected_contingency :: "flt list list option"
  residuals :: "flt list list option"
  observed :: "real list option"
  expected_dist :: "real list option"












section \<open>The quantities the specification names\<close>

text \<open>
  The closed forms of the specification, written with indices over the cells and the
  groups, to be compared with what the calls above compute.
\<close>

subsection \<open>Contingency tables\<close>

text \<open>
  A contingency table of the specification: at least two rows and two columns, no
  negative count, and no row or column total that is zero. Counts are whole numbers;
  nothing below depends on that.
\<close>

definition valid_table :: "table \<Rightarrow> bool" where
  "valid_table t =
     (rect t \<and> 2 \<le> length t \<and> 2 \<le> ncols t \<and> list_all (\<lambda>x. 0 \<le> x) (concat t) \<and>
      list_all (\<lambda>x. 0 < x) (row_sums t) \<and> list_all (\<lambda>x. 0 < x) (col_sums t))"

definition cell_sum :: "(nat \<Rightarrow> nat \<Rightarrow> real) \<Rightarrow> nat \<Rightarrow> nat \<Rightarrow> real" where
  "cell_sum f R C = (\<Sum>i\<leftarrow>[0..<R]. \<Sum>j\<leftarrow>[0..<C]. f i j)"

text \<open>\<open>Expected[i,j] = row_total[i] * col_total[j] / N\<close>\<close>

definition expected_cell :: "table \<Rightarrow> nat \<Rightarrow> nat \<Rightarrow> real" where
  "expected_cell t i j = row_sums t ! i * col_sums t ! j / grand_total t"

text \<open>The Pearson sum over all cells.\<close>

definition pearson :: "table \<Rightarrow> real" where
  "pearson t =
     cell_sum (\<lambda>i j. (t ! i ! j - expected_cell t i j)\<^sup>2 / expected_cell t i j)
       (length t) (ncols t)"

text \<open>The same sum after each count has been moved towards its expected count.\<close>

definition yates_pearson :: "table \<Rightarrow> real" where
  "yates_pearson t =
     cell_sum (\<lambda>i j. (yates_cell (t ! i ! j) (expected_cell t i j) - expected_cell t i j)\<^sup>2
                 / expected_cell t i j)
       (length t) (ncols t)"

text \<open>The statistic of \<^const>\<open>power_divergence\<close> where no expected count is zero.\<close>

definition chi2_sum :: "real list \<Rightarrow> real list \<Rightarrow> real" where
  "chi2_sum f_obs f_exp = sum_list (map2 (\<lambda>ob ex. (ob - ex)\<^sup>2 / ex) f_obs f_exp)"

text \<open>The table \<^const>\<open>chi2_contingency\<close> hands to \<^const>\<open>power_divergence\<close>.\<close>

definition corrected :: "table \<Rightarrow> table" where
  "corrected t =
     (if length t = 2 \<and> ncols t = 2 then yates t (expected_freq t) else t)"

subsection \<open>Analysis of variance\<close>

text \<open>
  Groups the specification accepts: at least two, none empty, and more observations
  than groups.
\<close>

definition valid_groups :: "real list list \<Rightarrow> bool" where
  "valid_groups gs =
     (2 \<le> length gs \<and> list_all (\<lambda>g. g \<noteq> []) gs \<and> length gs < length (concat gs))"

definition grand_mean :: "real list list \<Rightarrow> real" where
  "grand_mean gs = mean (concat gs)"

text \<open>\<open>SS_between = \<Sum>\<^sub>g n\<^sub>g * (mean\<^sub>g - grand_mean)\<^sup>2\<close>\<close>

definition ss_between :: "real list list \<Rightarrow> real" where
  "ss_between gs = (\<Sum>g\<leftarrow>gs. real (length g) * (mean g - grand_mean gs)\<^sup>2)"

text \<open>\<open>SS_within = \<Sum>\<^sub>g \<Sum>\<^sub>x (x - mean\<^sub>g)\<^sup>2\<close>\<close>

definition ss_within :: "real list list \<Rightarrow> real" where
  "ss_within gs = (\<Sum>g\<leftarrow>gs. \<Sum>x\<leftarrow>g. (x - mean g)\<^sup>2)"

text \<open>\<open>F = (SS_between / df_between) / (SS_within / df_within)\<close>, a float division.\<close>

definition f_statistic :: "real list list \<Rightarrow> flt" where
  "f_statistic gs =
     fdiv (ss_between gs / (real (length gs) - 1))
          (ss_within gs / (real (length (concat gs)) - real (length gs)))"

text \<open>Each observation replaced by its absolute deviation from the centre of its group.\<close>

definition deviations :: "center \<Rightarrow> real list list \<Rightarrow> real list list" where
  "deviations c gs = map (\<lambda>g. map (\<lambda>x. \<bar>x - center_of c g\<bar>) g) gs"

text \<open>
  The one-tailed p-value of the specification: the lower or the upper tail, chosen by an
  expected sign the caller gives.
\<close>

definition spec_one_tailed :: "(real \<Rightarrow> real) \<Rightarrow> real \<Rightarrow> real \<Rightarrow> real" where
  "spec_one_tailed cdf expected_sign t = (if expected_sign < 0 then cdf t else 1 - cdf t)"

section \<open>Data for examples\<close>

text \<open>
  The distribution function of Student's t with one degree of freedom has a closed
  form; it serves where an example needs a distribution function, and the examples
  with it have one degree of freedom.
\<close>

definition t_cdf_1 :: "flt \<Rightarrow> real \<Rightarrow> real" where
  "t_cdf_1 d x = 1 / 2 + arctan x / pi"

text \<open>
  Stand-ins for the survival functions of the chi-squared and the F distribution in
  examples that look at the statistic only: the p-value of such an example is not that
  of the library.
\<close>

definition sf_zero :: "real \<Rightarrow> real \<Rightarrow> real" where
  [simp]: "sf_zero d x = 0"

definition f_sf_zero :: "real \<Rightarrow> real \<Rightarrow> real \<Rightarrow> real" where
  [simp]: "f_sf_zero dfn dfd x = 0"

text \<open>
  Four rows in the shape of the diabetes data and of the breast cancer data: in the
  second, the rows with target \<open>0\<close> are the malignant ones.
\<close>

definition diabetes_rows :: frame where
  "diabetes_rows = [''sex'' \<mapsto> [1, 2, 1, 2], ''target'' \<mapsto> [100, 150, 120, 152]]"

definition breast_cancer_rows :: frame where
  "breast_cancer_rows = [''target'' \<mapsto> [0, 1, 0, 1], ''mean radius'' \<mapsto> [20, 12, 22, 12]]"

section \<open>Sums over tables\<close>

lemma fsum_Fin: "fsum (map Fin xs) = Fin (sum_list xs)"
  by (induction xs) (simp_all add: fsum_def)

lemma sum_list_concat_rows: "sum_list (concat t) = sum_list (map sum_list (t :: real list list))"
  by (induction t) simp_all

lemma sum_list_rows: "sum_list (row_sums t) = grand_total t"
  by (simp add: row_sums_def grand_total_def sum_list_concat_rows)

lemma sum_list_nth_rows:
  "list_all (\<lambda>r. length r = n) t \<Longrightarrow>
   sum_list (map (\<lambda>j. sum_list (map (\<lambda>r. r ! j) t)) [0..<n]) = sum_list (concat (t :: real list list))"
proof (induction t)
  case Nil
  then show ?case by simp
next
  case (Cons r t)
  have "sum_list (map (\<lambda>j. sum_list (map (\<lambda>r. r ! j) (r # t))) [0..<n])
      = sum_list (map (\<lambda>j. r ! j) [0..<n]) + sum_list (map (\<lambda>j. sum_list (map (\<lambda>r. r ! j) t)) [0..<n])"
    by (simp add: sum_list_addf)
  moreover have "map (\<lambda>j. r ! j) [0..<n] = r" using Cons.prems by (auto simp: map_nth)
  ultimately show ?case using Cons by simp
qed

lemma sum_list_cols: "rect t \<Longrightarrow> sum_list (col_sums t) = grand_total t"
  unfolding rect_def col_sums_def grand_total_def by (rule sum_list_nth_rows)

lemma total_expected:
  "grand_total t \<noteq> 0 \<Longrightarrow> rect t \<Longrightarrow> grand_total (expected_freq t) = grand_total t"
proof -
  assume n: "grand_total t \<noteq> 0" and r: "rect t"
  have row: "sum_list (map (\<lambda>cj. ri * cj / grand_total t) cs) = ri * (sum_list cs / grand_total t)" for ri and cs :: "real list"
    by (induction cs) (simp_all add: algebra_simps add_divide_distrib)
  have "grand_total (expected_freq t) = sum_list (concat (expected_freq t))"
    by (simp add: grand_total_def)
  also have "\<dots> = sum_list (map (\<lambda>ri. ri * (sum_list (col_sums t) / grand_total t)) (row_sums t))"
    by (simp add: expected_freq_def sum_list_concat_rows comp_def row)
  also have "\<dots> = sum_list (row_sums t) * (sum_list (col_sums t) / grand_total t)"
    using sum_list_mult_const [of "\<lambda>x. x" "sum_list (col_sums t) / grand_total t" "row_sums t"]
    by simp
  finally show ?thesis using n r by (simp add: sum_list_rows sum_list_cols)
qed

section \<open>The contingency test on the tables of the specification\<close>

lemma terms_Fin:
  "list_all (\<lambda>x. x \<noteq> 0) f_exp \<Longrightarrow>
   terms f_obs f_exp = map Fin (map2 (\<lambda>ob ex. (ob - ex)\<^sup>2 / ex) f_obs f_exp)"
  by (auto simp: terms_def fdiv_def list_all_iff dest: set_zip_rightD)

lemma diff_gt_tol_same: "\<not> diff_gt_tol s s"
  by (simp add: diff_gt_tol_def fdiv_def rtol_def)

lemma power_divergence_Fin:
  assumes "list_all (\<lambda>x. x \<noteq> 0) f_exp" and "sum_list f_obs = sum_list f_exp"
    and "length f_obs = length f_exp"
  shows "power_divergence sf f_obs f_exp ddof =
     Inr (Fin (chi2_sum f_obs f_exp),
          Fin (sf (real_of_int (int (length f_obs) - 1 - ddof)) (chi2_sum f_obs f_exp)))"
proof -
  have t: "terms f_obs f_exp = map Fin (map2 (\<lambda>ob ex. (ob - ex)\<^sup>2 / ex) f_obs f_exp)"
    using assms(1) by (rule terms_Fin)
  have s: "fsum (terms f_obs f_exp) = Fin (chi2_sum f_obs f_exp)"
    unfolding t chi2_sum_def by (rule fsum_Fin)
  have l: "length (terms f_obs f_exp) = length f_obs"
    using assms(3) by (simp add: terms_def)
  show ?thesis
    unfolding power_divergence_def Let_def s l using assms(2)
    by (simp add: diff_gt_tol_same)
qed

lemma length_concat_rect: "list_all (\<lambda>r. length r = n) t \<Longrightarrow> length (concat t) = length t * n"
  by (induction t) simp_all

lemma sum_list_pos: "list_all (\<lambda>x. 0 < x) xs \<Longrightarrow> xs \<noteq> [] \<Longrightarrow> 0 < sum_list (xs :: real list)"
proof (induction xs)
  case Nil
  then show ?case by simp
next
  case (Cons a xs)
  then have "0 \<le> sum_list xs"
    by (intro sum_list_nonneg) (auto simp: list_all_iff intro: less_imp_le)
  with Cons.prems show ?case by simp
qed

lemma valid_total_pos: "valid_table t \<Longrightarrow> 0 < grand_total t"
proof -
  assume v: "valid_table t"
  then have "row_sums t \<noteq> []" by (auto simp: valid_table_def row_sums_def)
  with v have "0 < sum_list (row_sums t)" by (simp add: sum_list_pos valid_table_def)
  then show ?thesis by (simp add: sum_list_rows)
qed

lemma valid_expected_pos:
  "valid_table t \<Longrightarrow> list_all (\<lambda>x. 0 < x) (concat (expected_freq t))"
  using valid_total_pos [of t]
  by (auto simp: valid_table_def expected_freq_def list_all_iff)

lemma length_expected: "length (expected_freq t) = length t"
  by (simp add: expected_freq_def row_sums_def)

lemma rect_expected: "list_all (\<lambda>r. length r = ncols t) (expected_freq t)"
  by (simp add: expected_freq_def col_sums_def list_all_iff)

lemma length_concat_expected: "rect t \<Longrightarrow> length (concat (expected_freq t)) = length (concat t)"
  using length_concat_rect [OF rect_expected, of t] length_concat_rect [of "ncols t" t]
  by (simp add: rect_def length_expected)

lemma dof_eq:
  "rect t \<Longrightarrow> int (length (concat t)) - (int (length t) + int (ncols t)) + 2 - 1
     = (int (length t) - 1) * (int (ncols t) - 1)"
  using length_concat_rect [of "ncols t" t] by (simp add: rect_def algebra_simps)

lemma dof_one_iff:
  "2 \<le> R \<Longrightarrow> 2 \<le> C \<Longrightarrow> ((int R - 1) * (int C - 1) = 1) = (R = 2 \<and> C = 2)"
proof -
  assume r: "2 \<le> R" and c: "2 \<le> C"
  obtain a where a: "R = a + 2" using r by (metis add.commute le_Suc_ex)
  obtain b where b: "C = b + 2" using c by (metis add.commute le_Suc_ex)
  have "(1 + int a) * (1 + int b) = 1 \<longleftrightarrow> a = 0 \<and> b = 0"
    by (auto simp: zmult_eq_1_iff)
  then show ?thesis unfolding a b by simp
qed

lemma table_2x2:
  assumes "rect t" "length t = 2" "ncols t = 2"
  shows "\<exists>a b c d. t = [[a, b], [c, d]]"
proof -
  from assms(2) obtain r1 r2 where t: "t = [r1, r2]"
    by (auto simp: length_Suc_conv numeral_2_eq_2)
  from assms(1,3) have "length r1 = 2" "length r2 = 2"
    by (auto simp: t rect_def ncols_def)
  then obtain a b c d where "r1 = [a, b]" "r2 = [c, d]"
    by (auto simp: length_Suc_conv numeral_2_eq_2)
  with t show ?thesis by simp
qed

lemma expected_freq_2x2:
  "expected_freq [[a, b], [c, d]] =
     [[(a + b) * (a + c) / (a + b + c + d), (a + b) * (b + d) / (a + b + c + d)],
      [(c + d) * (a + c) / (a + b + c + d), (c + d) * (b + d) / (a + b + c + d)]]"
  by (simp add: expected_freq_def row_sums_def col_sums_def ncols_def grand_total_def
      numeral_2_eq_2 add.assoc)

lemma yates_sum_2x2:
  assumes n: "a + b + c + d \<noteq> (0::real)"
  shows "sum_list (concat (yates [[a, b], [c, d]] (expected_freq [[a, b], [c, d]]))) = a + b + c + d"
proof -
  define D where "D = (b * c - a * d) / (a + b + c + d)"
  have e11: "(a + b) * (a + c) / (a + b + c + d) - a = D"
    and e12: "(a + b) * (b + d) / (a + b + c + d) - b = - D"
    and e21: "(c + d) * (a + c) / (a + b + c + d) - c = - D"
    and e22: "(c + d) * (b + d) / (a + b + c + d) - d = D"
    using n unfolding D_def by (simp_all add: field_simps)
  show ?thesis
    unfolding expected_freq_2x2 yates_def yates_cell_def
    by (simp add: e11 e12 e21 e22)
qed

lemma length_concat_yates_2x2:
  "length (concat (yates [[a, b], [c, d]] (expected_freq [[a, b], [c, d]]))) = 4"
  by (simp add: expected_freq_2x2 yates_def)

lemma corrected_facts:
  assumes v: "valid_table t"
  shows "sum_list (concat (corrected t)) = grand_total t"
    and "length (concat (corrected t)) = length (concat t)"
proof -
  have r: "rect t" using v by (simp add: valid_table_def)
  have n: "grand_total t \<noteq> 0" using valid_total_pos [OF v] by simp
  show "sum_list (concat (corrected t)) = grand_total t"
  proof (cases "length t = 2 \<and> ncols t = 2")
    case True
    then obtain a b c d where t: "t = [[a, b], [c, d]]" using table_2x2 [OF r] by blast
    have "a + b + c + d \<noteq> 0" using n by (simp add: t grand_total_def add.assoc)
    then show ?thesis using True unfolding corrected_def
      by (simp add: t yates_sum_2x2 grand_total_def add.assoc)
  next
    case False
    then show ?thesis by (auto simp: corrected_def grand_total_def)
  qed
  show "length (concat (corrected t)) = length (concat t)"
  proof (cases "length t = 2 \<and> ncols t = 2")
    case True
    then obtain a b c d where t: "t = [[a, b], [c, d]]" using table_2x2 [OF r] by blast
    show ?thesis using True unfolding corrected_def
      by (simp add: t length_concat_yates_2x2)
  next
    case False
    then show ?thesis by (auto simp: corrected_def)
  qed
qed

lemma chi2_contingency_valid:
  assumes v: "valid_table t"
  shows "chi2_contingency sf t =
     Inr \<lparr>statistic = Fin (chi2_sum (concat (corrected t)) (concat (expected_freq t))),
          pvalue = Fin (sf (real_of_int ((int (length t) - 1) * (int (ncols t) - 1)))
                     (chi2_sum (concat (corrected t)) (concat (expected_freq t)))),
          dof = (int (length t) - 1) * (int (ncols t) - 1),
          expected_freqs = map (map Fin) (expected_freq t)\<rparr>"
proof -
  have r: "rect t" and R: "2 \<le> length t" and C: "2 \<le> ncols t"
    and nn: "list_all (\<lambda>x. 0 \<le> x) (concat t)"
    using v by (simp_all add: valid_table_def)
  have neg: "\<not> list_ex (\<lambda>x. x < 0) (concat t)"
    using nn by (fastforce simp: list_all_iff list_ex_iff not_less)
  have len: "length (concat t) = length t * ncols t"
    using r by (simp add: rect_def length_concat_rect)
  have size: "length (concat t) \<noteq> 0" using R C len by auto
  have n: "grand_total t \<noteq> 0" using valid_total_pos [OF v] by simp
  have ez: "\<not> list_ex (\<lambda>x. x = 0) (concat (expected_freq t))"
    using valid_expected_pos [OF v] by (auto simp: list_all_iff list_ex_iff)
  have enz: "list_all (\<lambda>x. x \<noteq> 0) (concat (expected_freq t))"
    using valid_expected_pos [OF v] by (auto simp: list_all_iff)
  define d where "d = int (length (concat t)) - (int (length t) + int (ncols t)) + 2 - 1"
  have d: "d = (int (length t) - 1) * (int (ncols t) - 1)"
    unfolding d_def by (rule dof_eq [OF r])
  have d0: "d \<noteq> 0" using R C unfolding d by auto
  have d1: "(d = 1) = (length t = 2 \<and> ncols t = 2)"
    unfolding d by (rule dof_one_iff [OF R C])
  have obs': "(if d = 1 then yates t (expected_freq t) else t) = corrected t"
    by (simp add: d1 corrected_def)
  have pd: "power_divergence sf (concat (corrected t)) (concat (expected_freq t))
              (int (length (concat t)) - 1 - d) =
     Inr (Fin (chi2_sum (concat (corrected t)) (concat (expected_freq t))),
          Fin (sf (real_of_int d) (chi2_sum (concat (corrected t)) (concat (expected_freq t)))))"
    using power_divergence_Fin [OF enz, of "concat (corrected t)" sf "int (length (concat t)) - 1 - d"]
      corrected_facts [OF v] total_expected [OF n r] length_concat_expected [OF r]
    by (simp add: grand_total_def)
  show ?thesis
    unfolding chi2_contingency_def Let_def d_def [symmetric] obs' pd
    using neg size n ez d0 by (simp add: d)
qed

lemma map2_nth:
  "length a = n \<Longrightarrow> length b = n \<Longrightarrow> map2 g a b = map (\<lambda>j. g (a ! j) (b ! j)) [0..<n]"
  by (rule nth_equalityI) simp_all

lemma sum_list_upt_Suc_shift:
  "sum_list (map f [0..<Suc n]) = f 0 + sum_list (map (\<lambda>i. f (Suc i)) [0..<n])" for f :: "nat \<Rightarrow> real"
proof -
  have "[0..<Suc n] = 0 # map Suc [0..<n]"
    by (simp add: upt_conv_Cons map_Suc_upt del: upt_Suc)
  then show ?thesis by (simp add: comp_def del: upt_Suc)
qed

lemma sum_map2_concat:
  "length A = length B \<Longrightarrow> list_all (\<lambda>r. length r = n) A \<Longrightarrow> list_all (\<lambda>r. length r = n) B \<Longrightarrow>
   sum_list (map2 g (concat A) (concat B)) = cell_sum (\<lambda>i j. g (A ! i ! j) (B ! i ! j)) (length A) n"
   for g :: "real \<Rightarrow> real \<Rightarrow> real"
proof (induction A B rule: list_induct2)
  case Nil
  then show ?case by (simp add: cell_sum_def)
next
  case (Cons a A b B)
  have ab: "length a = n" "length b = n" using Cons.prems by simp_all
  have "sum_list (map2 g (concat (a # A)) (concat (b # B)))
      = sum_list (map2 g a b) + sum_list (map2 g (concat A) (concat B))"
    using ab by simp
  also have "\<dots> = sum_list (map (\<lambda>j. g (a ! j) (b ! j)) [0..<n])
                   + cell_sum (\<lambda>i j. g (A ! i ! j) (B ! i ! j)) (length A) n"
    using Cons ab by (simp add: map2_nth [of a n b g])
  also have "\<dots> = cell_sum (\<lambda>i j. g ((a # A) ! i ! j) ((b # B) ! i ! j)) (length (a # A)) n"
    unfolding cell_sum_def length_Cons sum_list_upt_Suc_shift by simp
  finally show ?case .
qed

lemma expected_freq_nth:
  "i < length t \<Longrightarrow> j < ncols t \<Longrightarrow> expected_freq t ! i ! j = expected_cell t i j"
  by (simp add: expected_freq_def expected_cell_def row_sums_def col_sums_def)

lemma cell_sum_cong:
  "(\<And>i j. i < R \<Longrightarrow> j < C \<Longrightarrow> f i j = g i j) \<Longrightarrow> cell_sum f R C = cell_sum g R C"
  unfolding cell_sum_def
  by (intro arg_cong [where f = sum_list] map_cong refl) simp

lemma yates_nth:
  "length A = length B \<Longrightarrow> list_all (\<lambda>r. length r = n) A \<Longrightarrow> list_all (\<lambda>r. length r = n) B \<Longrightarrow>
   i < length A \<Longrightarrow> j < n \<Longrightarrow> yates A B ! i ! j = yates_cell (A ! i ! j) (B ! i ! j)"
  by (simp add: yates_def list_all_length)

lemma yates_shape:
  "length A = length B \<Longrightarrow> list_all (\<lambda>r. length r = n) A \<Longrightarrow> list_all (\<lambda>r. length r = n) B \<Longrightarrow>
   length (yates A B) = length A \<and> list_all (\<lambda>r. length r = n) (yates A B)"
  by (auto simp: yates_def list_all_length)

lemma chi2_sum_cells:
  assumes r: "rect t"
  shows "chi2_sum (concat (corrected t)) (concat (expected_freq t)) =
     (if length t = 2 \<and> ncols t = 2 then yates_pearson t else pearson t)"
proof -
  have rt: "list_all (\<lambda>r. length r = ncols t) t" using r by (simp add: rect_def)
  note re = rect_expected [of t]
  have le: "length t = length (expected_freq t)" by (simp add: length_expected)
  show ?thesis
  proof (cases "length t = 2 \<and> ncols t = 2")
    case True
    have "chi2_sum (concat (yates t (expected_freq t))) (concat (expected_freq t)) =
        cell_sum (\<lambda>i j. (yates t (expected_freq t) ! i ! j - expected_freq t ! i ! j)\<^sup>2
                     / expected_freq t ! i ! j) (length (yates t (expected_freq t))) (ncols t)"
      unfolding chi2_sum_def using yates_shape [OF le rt re]
      by (intro sum_map2_concat) (simp_all add: length_expected re)
    also have "\<dots> = yates_pearson t"
      unfolding yates_pearson_def using yates_shape [OF le rt re]
      by (auto intro!: cell_sum_cong simp: yates_nth [OF le rt re] expected_freq_nth)
    finally show ?thesis using True by (simp add: corrected_def)
  next
    case False
    have "chi2_sum (concat t) (concat (expected_freq t)) =
        cell_sum (\<lambda>i j. (t ! i ! j - expected_freq t ! i ! j)\<^sup>2 / expected_freq t ! i ! j)
          (length t) (ncols t)"
      unfolding chi2_sum_def by (intro sum_map2_concat le rt re)
    also have "\<dots> = pearson t"
      unfolding pearson_def by (auto intro!: cell_sum_cong simp: expected_freq_nth)
    finally show ?thesis using False by (auto simp: corrected_def)
  qed
qed

lemma chi2_sum_nonneg:
  "list_all (\<lambda>x. 0 < x) f_exp \<Longrightarrow> 0 \<le> chi2_sum f_obs f_exp"
  unfolding chi2_sum_def
  by (rule sum_list_nonneg) (auto simp: list_all_iff dest!: set_zip_rightD)

lemma yates_same: "list_all2 (\<lambda>a b. length a = length b) t t \<Longrightarrow> yates t t = t"
  unfolding yates_def
  by (induction t) (auto simp: yates_cell_def map_idI zip_same_conv_map comp_def)

lemma chi2_sum_same: "chi2_sum xs xs = 0"
  unfolding chi2_sum_def by (induction xs) simp_all

section \<open>Sums of squares\<close>

lemma sum_list_shift:
  "sum_list (map (\<lambda>x. x - c) xs) = sum_list xs - real (length xs) * c" for xs :: "real list"
  by (induction xs) (simp_all add: algebra_simps)

lemma sum_sq_shift:
  "(\<Sum>x\<leftarrow>xs. (x - c)\<^sup>2) =
     (\<Sum>x\<leftarrow>xs. (x - m)\<^sup>2) + 2 * (m - c) * (sum_list xs - real (length xs) * m)
       + real (length xs) * (m - c)\<^sup>2" for xs :: "real list"
proof (induction xs)
  case Nil
  then show ?case by simp
next
  case (Cons a xs)
  show ?case
    unfolding list.map sum_list.Cons length_Cons of_nat_Suc Cons.IH
    by algebra
qed

lemma sum_sq_mean:
  assumes "xs \<noteq> []"
  shows "(\<Sum>x\<leftarrow>xs. (x - c)\<^sup>2) = (\<Sum>x\<leftarrow>xs. (x - mean xs)\<^sup>2) + real (length xs) * (mean xs - c)\<^sup>2"
proof -
  have "sum_list xs - real (length xs) * mean xs = 0" using assms by (simp add: mean_def)
  then show ?thesis using sum_sq_shift [of c xs "mean xs"] by simp
qed

lemma square_of_sums_shift:
  assumes "xs \<noteq> []"
  shows "square_of_sums (map (\<lambda>x. x - c) xs) / real (length xs) = real (length xs) * (mean xs - c)\<^sup>2"
proof -
  have n: "real (length xs) \<noteq> 0" using assms by simp
  have "sum_list xs - real (length xs) * c = real (length xs) * (mean xs - c)"
    using n by (simp add: mean_def algebra_simps)
  then show ?thesis using n
    by (simp add: square_of_sums_def sum_list_shift power2_eq_square)
qed

lemma sum_list_concat_map:
  "sum_list (map f (concat gs)) = (\<Sum>g\<leftarrow>gs. sum_list (map f g))" for f :: "real \<Rightarrow> real"
  by (induction gs) simp_all

lemma ssbn_eq:
  assumes "list_all (\<lambda>g. g \<noteq> []) gs"
  shows "(\<Sum>s\<leftarrow>gs. square_of_sums (map (\<lambda>x. x - c) s) / real (length s))
           = (\<Sum>g\<leftarrow>gs. real (length g) * (mean g - c)\<^sup>2)"
  using assms by (induction gs) (simp_all add: square_of_sums_shift)

lemma sstot_eq:
  assumes "list_all (\<lambda>g. g \<noteq> []) gs"
  shows "sum_of_squares (map (\<lambda>x. x - c) (concat gs))
           = ss_within gs + (\<Sum>g\<leftarrow>gs. real (length g) * (mean g - c)\<^sup>2)"
proof -
  have "sum_of_squares (map (\<lambda>x. x - c) (concat gs)) = (\<Sum>g\<leftarrow>gs. \<Sum>x\<leftarrow>g. (x - c)\<^sup>2)"
    using sum_list_concat_map [of "\<lambda>x. (x - c)\<^sup>2" gs]
    by (simp add: sum_of_squares_def comp_def)
  also have "\<dots> = (\<Sum>g\<leftarrow>gs. (\<Sum>x\<leftarrow>g. (x - mean g)\<^sup>2) + real (length g) * (mean g - c)\<^sup>2)"
  proof (rule arg_cong [where f = sum_list], rule map_cong [OF refl])
    fix g assume "g \<in> set gs"
    then have "g \<noteq> []" using assms by (simp add: list_all_iff)
    then show "(\<Sum>x\<leftarrow>g. (x - c)\<^sup>2) = (\<Sum>x\<leftarrow>g. (x - mean g)\<^sup>2) + real (length g) * (mean g - c)\<^sup>2"
      by (rule sum_sq_mean)
  qed
  also have "\<dots> = ss_within gs + (\<Sum>g\<leftarrow>gs. real (length g) * (mean g - c)\<^sup>2)"
    unfolding ss_within_def by (rule sum_list_addf)
  finally show ?thesis .
qed

lemma length_concat_ones:
  "list_all (\<lambda>s. length s = 1) gs \<Longrightarrow> length (concat gs) = length gs"
  by (induction gs) simp_all

lemma sum_list_all_eq:
  "\<forall>x\<in>set xs. x = v \<Longrightarrow> sum_list xs = real (length xs) * v" for xs :: "real list"
  by (induction xs) (simp_all add: distrib_right)

lemma mean_all_eq: "xs \<noteq> [] \<Longrightarrow> \<forall>x\<in>set xs. x = v \<Longrightarrow> mean xs = v"
  by (simp add: mean_def sum_list_all_eq)

lemma is_const_iff: "xs \<noteq> [] \<Longrightarrow> is_const xs \<longleftrightarrow> (\<forall>x\<in>set xs. x = mean xs)"
proof
  assume n: "xs \<noteq> []" and c: "is_const xs"
  then have a: "\<forall>x\<in>set xs. x = hd xs" by (simp add: is_const_def list_all_iff)
  with n have "mean xs = hd xs" by (rule mean_all_eq)
  with a show "\<forall>x\<in>set xs. x = mean xs" by simp
next
  assume n: "xs \<noteq> []" and a: "\<forall>x\<in>set xs. x = mean xs"
  with n have "hd xs = mean xs" by simp
  with a show "is_const xs" by (simp add: is_const_def list_all_iff)
qed

lemma sum_list_zero:
  "(\<And>x. x \<in> set xs \<Longrightarrow> f x = 0) \<Longrightarrow> sum_list (map f xs) = (0 :: real)"
  by (induction xs) simp_all

lemma ss_within_nonneg: "0 \<le> ss_within gs"
  unfolding ss_within_def by (intro sum_list_nonneg) (auto intro!: sum_list_nonneg)

lemma ss_between_nonneg: "0 \<le> ss_between gs"
  unfolding ss_between_def by (intro sum_list_nonneg) auto

lemma ss_within_zero:
  "list_all (\<lambda>g. g \<noteq> []) gs \<Longrightarrow> list_all is_const gs \<Longrightarrow> ss_within gs = 0"
proof -
  assume ne: "list_all (\<lambda>g. g \<noteq> []) gs" and c: "list_all is_const gs"
  have h: "(\<Sum>x\<leftarrow>g. (x - mean g)\<^sup>2) = 0" if "g \<in> set gs" for g
  proof -
    from that ne c have "\<forall>x\<in>set g. x = mean g"
      by (simp add: list_all_iff is_const_iff)
    then show ?thesis by (intro sum_list_zero) simp
  qed
  show ?thesis unfolding ss_within_def by (rule sum_list_zero) (rule h)
qed

lemma ss_between_zero_means:
  assumes ne: "list_all (\<lambda>g. g \<noteq> []) gs" and z: "ss_between gs = 0" and g: "g \<in> set gs"
  shows "mean g = grand_mean gs"
proof -
  have "\<forall>x\<in>set (map (\<lambda>g. real (length g) * (mean g - grand_mean gs)\<^sup>2) gs). x = 0"
    using z unfolding ss_between_def
    by (subst (asm) sum_list_nonneg_eq_0_iff) auto
  with g have "real (length g) * (mean g - grand_mean gs)\<^sup>2 = 0" by auto
  moreover have "g \<noteq> []" using ne g by (simp add: list_all_iff)
  ultimately show ?thesis by simp
qed

lemma all_const_same:
  assumes ne: "list_all (\<lambda>g. g \<noteq> []) gs" and c: "list_all is_const gs"
    and z: "ss_between gs = 0"
  shows "is_const (concat gs)"
proof -
  have "x = grand_mean gs" if "x \<in> set (concat gs)" for x
  proof -
    from that obtain g where g: "g \<in> set gs" "x \<in> set g" by auto
    with ne c have "x = mean g" by (auto simp: list_all_iff is_const_iff)
    with ss_between_zero_means [OF ne z g(1)] show ?thesis by simp
  qed
  then have a: "\<forall>x\<in>set (concat gs). x = grand_mean gs" by blast
  show ?thesis
  proof (cases "concat gs = []")
    case True
    show ?thesis unfolding is_const_def True by simp
  next
    case False
    then have "hd (concat gs) \<in> set (concat gs)" by (rule hd_in_set)
    then have "hd (concat gs) = grand_mean gs" using a by blast
    with a show ?thesis by (simp add: is_const_def list_all_iff)
  qed
qed

lemma same_const_all:
  assumes ne: "list_all (\<lambda>g. g \<noteq> []) gs" and c: "is_const (concat gs)" and k: "gs \<noteq> []"
  shows "list_all is_const gs \<and> ss_between gs = 0"
proof -
  have cne: "concat gs \<noteq> []" using ne k by (cases gs) (auto simp: list_all_iff)
  then have a: "\<forall>x\<in>set (concat gs). x = grand_mean gs"
    using c by (simp add: is_const_iff grand_mean_def)
  have m: "mean g = grand_mean gs" if "g \<in> set gs" for g
    using that ne a by (intro mean_all_eq) (auto simp: list_all_iff)
  have "is_const g" if "g \<in> set gs" for g
    using that ne a m [OF that] by (subst is_const_iff) (auto simp: list_all_iff)
  moreover have "ss_between gs = 0"
    unfolding ss_between_def by (intro sum_list_zero) (simp add: m)
  ultimately show ?thesis by (simp add: list_all_iff)
qed

section \<open>The F statistic of the library calls\<close>

lemma valid_groups_facts:
  assumes "valid_groups gs"
  shows "\<not> length gs < 2" and "\<not> list_ex (\<lambda>s. length s = 0) gs"
    and "\<not> list_all (\<lambda>s. length s = 1) gs" and "list_all (\<lambda>g. g \<noteq> []) gs"
    and "gs \<noteq> []" and "concat gs \<noteq> []"
    and "0 < real (length gs) - 1" and "0 < real (length (concat gs)) - real (length gs)"
proof -
  show "\<not> length gs < 2" using assms by (simp add: valid_groups_def)
  show ne: "list_all (\<lambda>g. g \<noteq> []) gs" using assms by (simp add: valid_groups_def)
  then show "\<not> list_ex (\<lambda>s. length s = 0) gs" by (simp add: list_all_iff list_ex_iff)
  show "\<not> list_all (\<lambda>s. length s = 1) gs"
    using assms length_concat_ones [of gs] by (auto simp: valid_groups_def)
  show "gs \<noteq> []" using assms by (auto simp: valid_groups_def)
  show "concat gs \<noteq> []" using assms by (cases gs) (auto simp: valid_groups_def)
  show "0 < real (length gs) - 1" using assms by (simp add: valid_groups_def)
  show "0 < real (length (concat gs)) - real (length gs)"
    using assms by (simp add: valid_groups_def)
qed

lemma anova_sums:
  assumes v: "valid_groups gs"
  defines "c \<equiv> sum_list (concat gs) / real (length (concat gs))"
  shows "square_of_sums (map (\<lambda>x. x - c) (concat gs)) / real (length (concat gs)) = 0"
    and "(\<Sum>s\<leftarrow>gs. square_of_sums (map (\<lambda>x. x - c) s) / real (length s)) = ss_between gs"
    and "sum_of_squares (map (\<lambda>x. x - c) (concat gs)) = ss_within gs + ss_between gs"
proof -
  note f = valid_groups_facts [OF v]
  have c: "c = grand_mean gs" by (simp add: c_def grand_mean_def mean_def)
  have "sum_list (concat gs) - real (length (concat gs)) * c = 0"
    using f(6) by (simp add: c_def)
  then show "square_of_sums (map (\<lambda>x. x - c) (concat gs)) / real (length (concat gs)) = 0"
    by (simp add: square_of_sums_def sum_list_shift)
  show "(\<Sum>s\<leftarrow>gs. square_of_sums (map (\<lambda>x. x - c) s) / real (length s)) = ss_between gs"
    unfolding ss_between_def c [symmetric] by (rule ssbn_eq [OF f(4)])
  show "sum_of_squares (map (\<lambda>x. x - c) (concat gs)) = ss_within gs + ss_between gs"
    unfolding ss_between_def c [symmetric] by (rule sstot_eq [OF f(4)])
qed

lemma f_statistic_same_const:
  assumes v: "valid_groups gs" and c: "is_const (concat gs)"
  shows "f_statistic gs = NaN"
proof -
  note f = valid_groups_facts [OF v]
  from same_const_all [OF f(4) c f(5)] have "list_all is_const gs" "ss_between gs = 0" by simp_all
  with ss_within_zero [OF f(4)] show ?thesis by (simp add: f_statistic_def fdiv_def)
qed

lemma f_statistic_all_const:
  assumes v: "valid_groups gs" and c: "list_all is_const gs" and n: "\<not> is_const (concat gs)"
  shows "f_statistic gs = PInf"
proof -
  note f = valid_groups_facts [OF v]
  have "ss_between gs \<noteq> 0" using all_const_same [OF f(4) c] n by blast
  with ss_between_nonneg [of gs] have "0 < ss_between gs" by simp
  then have "0 < ss_between gs / (real (length gs) - 1)" using f(7) by simp
  with ss_within_zero [OF f(4) c] show ?thesis by (simp add: f_statistic_def fdiv_def)
qed

lemma f_oneway_valid:
  assumes v: "valid_groups gs"
  shows "f_oneway f_sf gs =
     Inr (f_statistic gs,
          sf_flt (f_sf (real (length gs) - 1) (real (length (concat gs)) - real (length gs)))
            (f_statistic gs))"
proof -
  note f = valid_groups_facts [OF v]
  note s = anova_sums [OF v]
  have main: "f_oneway f_sf gs =
     (if is_const (concat gs) then Inr (NaN, NaN)
      else if list_all is_const gs then Inr (PInf, Fin 0)
      else Inr (f_statistic gs,
          sf_flt (f_sf (real (length gs) - 1) (real (length (concat gs)) - real (length gs)))
            (f_statistic gs)))"
    unfolding f_oneway_def Let_def s using f(1,2,3)
    by (simp add: f_statistic_def)
  show ?thesis
  proof (cases "is_const (concat gs)")
    case True
    then show ?thesis unfolding main using f_statistic_same_const [OF v] by simp
  next
    case False
    show ?thesis
    proof (cases "list_all is_const gs")
      case True
      then show ?thesis unfolding main using False f_statistic_all_const [OF v] by simp
    next
      case c: False
      then show ?thesis unfolding main using False by simp
    qed
  qed
qed

lemma map2_map_map: "map2 f (map g xs) (map h xs) = map (\<lambda>x. f (g x) (h x)) xs"
  by (induction xs) simp_all

lemma fdiv_cross:
  assumes "0 < a" and "0 < b"
  shows "fdiv (a * u) (b * v) = fdiv (u / b) (v / a)"
proof (cases "v = 0")
  case True
  then show ?thesis using assms
    by (simp add: fdiv_def zero_less_mult_iff mult_less_0_iff zero_less_divide_iff divide_less_0_iff)
next
  case False
  then show ?thesis using assms by (simp add: fdiv_def)
qed

lemma length_deviations: "length (deviations c gs) = length gs"
  by (simp add: deviations_def)

lemma length_concat_deviations: "length (concat (deviations c gs)) = length (concat gs)"
  by (induction gs) (simp_all add: deviations_def)

lemma valid_deviations: "valid_groups gs \<Longrightarrow> valid_groups (deviations c gs)"
  using length_concat_deviations [of c gs]
  by (simp add: valid_groups_def length_deviations) (simp add: deviations_def list_all_iff)

lemma sum_lengths: "(\<Sum>s\<leftarrow>gs. real (length s)) = real (length (concat gs))"
  by (induction gs) simp_all

lemma levene_Zbar:
  assumes "list_all (\<lambda>g. g \<noteq> []) zs"
  shows "(\<Sum>z\<leftarrow>zs. mean z * real (length z)) = sum_list (concat zs)"
  using assms by (induction zs) (simp_all add: mean_def)

lemma levene_valid:
  assumes v: "valid_groups gs"
  shows "levene f_sf c gs =
     Inr (f_statistic (deviations c gs),
          sf_flt (f_sf (real (length gs) - 1) (real (length (concat gs)) - real (length gs)))
            (f_statistic (deviations c gs)))"
proof -
  note f = valid_groups_facts [OF v]
  let ?Z = "deviations c gs"
  note fz = valid_groups_facts [OF valid_deviations [OF v, of c]]
  have Zij: "map2 (\<lambda>s yc. map (\<lambda>x. \<bar>x - yc\<bar>) s) gs (map (center_of c) gs) = ?Z"
    using map2_map_map [of "\<lambda>s yc. map (\<lambda>x. \<bar>x - yc\<bar>) s" "\<lambda>g. g" gs "center_of c"]
    by (simp add: deviations_def)
  have Ni: "map (\<lambda>s. real (length s)) gs = map (\<lambda>z. real (length z)) ?Z"
    by (simp add: deviations_def comp_def)
  have Ntot: "(\<Sum>z\<leftarrow>?Z. real (length z)) = real (length (concat gs))"
    by (simp add: sum_lengths length_concat_deviations)
  have Zbar: "sum_list (map2 (\<lambda>zb n. zb * n) (map mean ?Z) (map (\<lambda>z. real (length z)) ?Z))
                / real (length (concat gs)) = grand_mean ?Z"
    unfolding map2_map_map levene_Zbar [OF fz(4)]
    by (simp add: grand_mean_def mean_def length_concat_deviations)
  have numer: "sum_list (map2 (\<lambda>n zb. n * (zb - grand_mean ?Z)\<^sup>2)
                  (map (\<lambda>z. real (length z)) ?Z) (map mean ?Z)) = ss_between ?Z"
    unfolding map2_map_map by (simp add: ss_between_def)
  have dvar: "sum_list (map2 (\<lambda>z zb. sum_list (map (\<lambda>x. (x - zb)\<^sup>2) z)) ?Z (map mean ?Z))
                = ss_within ?Z"
    using map2_map_map [of "\<lambda>z zb. sum_list (map (\<lambda>x. (x - zb)\<^sup>2) z)" "\<lambda>z. z" ?Z mean]
    by (simp add: ss_within_def)
  have W: "fdiv ((real (length (concat gs)) - real (length gs)) * ss_between ?Z)
                ((real (length gs) - 1) * ss_within ?Z) = f_statistic ?Z"
    unfolding f_statistic_def length_deviations length_concat_deviations
    by (rule fdiv_cross [OF f(8) f(7)])
  show ?thesis
    unfolding levene_def Let_def Zij Ni Ntot Zbar numer dvar W
    using f(1,2) by simp
qed

section \<open>The chi-squared statistic of a contingency table\<close>

text \<open>
  Claim C9. For every contingency table of the specification the call
  \<^const>\<open>chi2_contingency\<close> of the notebook returns a result; its statistic is a
  finite number that is not negative, and it is zero whenever the table of expected
  counts the call returns equals the observed table.
\<close>

theorem chi2_statistic_nonneg:
  assumes "valid_table t"
  shows "\<exists>r s. chi2_contingency sf t = Inr r \<and> statistic r = Fin s \<and> 0 \<le> s \<and>
           (expected_freqs r = map (map Fin) t \<longrightarrow> s = 0)"
proof -
  let ?s = "chi2_sum (concat (corrected t)) (concat (expected_freq t))"
  have inj: "inj (map (map Fin))" by (simp add: inj_on_def)
  have z: "?s = 0" if e: "expected_freq t = t"
  proof -
    have "yates t t = t" by (rule yates_same) (simp add: list_all2_same)
    then have "corrected t = t" by (simp add: corrected_def e)
    then show ?thesis by (simp add: e chi2_sum_same)
  qed
  have z': "?s = 0" if "map (map Fin) (expected_freq t) = map (map Fin) t"
    using z injD [OF inj that] by blast
  have nn: "0 \<le> ?s" by (rule chi2_sum_nonneg [OF valid_expected_pos [OF assms]])
  show ?thesis
    unfolding chi2_contingency_valid [OF assms, of sf] using z' nn by simp
qed

text \<open>
  The table with rows \<open>2, 4\<close> and \<open>3, 6\<close> is its own table of expected counts, and
  its statistic is zero.
\<close>

theorem chi2_statistic_nonneg_witness:
  "valid_table [[2, 4], [3, 6]] \<and>
   (\<exists>r. chi2_contingency sf_zero [[2, 4], [3, 6]] = Inr r \<and>
        expected_freqs r = map (map Fin) [[2, 4], [3, 6]] \<and> statistic r = Fin 0)"
proof -
  have v: "valid_table [[2, 4], [3, 6]]"
    by (simp add: valid_table_def rect_def ncols_def row_sums_def col_sums_def numeral_2_eq_2)
  have e: "expected_freq [[2, 4], [3, 6]] = [[2, 4], [3, 6]]"
    by (simp add: expected_freq_2x2)
  from chi2_statistic_nonneg [OF v, of sf_zero] obtain r s
    where r: "chi2_contingency sf_zero [[2, 4], [3, 6]] = Inr r"
      and s: "statistic r = Fin s"
      and z: "expected_freqs r = map (map Fin) [[2, 4], [3, 6]] \<longrightarrow> s = 0"
    by blast
  have "expected_freqs r = map (map Fin) [[2, 4], [3, 6]]"
    using r unfolding chi2_contingency_valid [OF v] e by auto
  with r s z v show ?thesis by auto
qed

text \<open>
  Claim C1 says that the statistic is the Pearson sum for every table, two by two
  tables included. The call of the notebook leaves \<^verbatim>\<open>correction=True\<close>, and SciPy then
  applies Yates' correction to every table with one degree of freedom. On the table
  with rows \<open>143, 50\<close> and \<open>267, 458\<close> the call returns 84.1451..., which agrees
  with the 84.15 the notebook reports for its two by two table, while the Pearson sum
  is 85.6462.... The p-value below is that of the stand-in \<^const>\<open>sf_zero\<close>.
\<close>

theorem chi2_pearson_2x2_counterexample:
  "chi2_contingency sf_zero [[143, 50], [267, 458]] =
     Inr \<lparr>statistic = Fin (49045788171 / 582871580), pvalue = Fin 0, dof = 1,
          expected_freqs = [[Fin (39565 / 459), Fin (49022 / 459)],
                            [Fin (148625 / 459), Fin (184150 / 459)]]\<rparr> \<and>
   pearson [[143, 50], [267, 458]] = 312004875456 / 3642947375 \<and>
   pearson [[143, 50], [267, 458]] \<noteq> 49045788171 / 582871580"
proof -
  have v: "valid_table [[143, 50], [267, 458]]"
    by (simp add: valid_table_def rect_def ncols_def row_sums_def col_sums_def numeral_2_eq_2)
  have r: "rect [[143, 50], [267, 458]]" using v by (simp add: valid_table_def)
  have y: "yates_pearson [[143, 50], [267, 458]] = 49045788171 / 582871580"
    by (simp add: yates_pearson_def cell_sum_def expected_cell_def yates_cell_def
        row_sums_def col_sums_def ncols_def grand_total_def numeral_2_eq_2 power2_eq_square)
  have p: "pearson [[143, 50], [267, 458]] = 312004875456 / 3642947375"
    by (simp add: pearson_def cell_sum_def expected_cell_def
        row_sums_def col_sums_def ncols_def grand_total_def numeral_2_eq_2 power2_eq_square)
  have e: "expected_freq [[143, 50], [267, 458]] =
      [[39565 / 459, 49022 / 459], [148625 / 459, 184150 / 459]]"
    by (simp add: expected_freq_2x2)
  have c: "chi2_sum (concat (corrected [[143, 50], [267, 458]]))
             (concat (expected_freq [[143, 50], [267, 458]])) = 49045788171 / 582871580"
    unfolding chi2_sum_cells [OF r] using y by (simp add: ncols_def)
  have "chi2_contingency sf_zero [[143, 50], [267, 458]] =
      Inr \<lparr>statistic = Fin (49045788171 / 582871580), pvalue = Fin 0, dof = 1,
           expected_freqs = map (map Fin) (expected_freq [[143, 50], [267, 458]])\<rparr>"
    unfolding chi2_contingency_valid [OF v] c by (simp add: ncols_def)
  then show ?thesis unfolding p e by simp
qed

text \<open>
  Claim C1, amended. For every contingency table of the specification the call returns
  the expected counts \<open>row_total[i] * col_total[j] / N\<close>. Its statistic is the Pearson
  sum over all cells for every table that is not two by two; for a two by two table
  it is the Pearson sum after Yates' correction, which moves each observed count
  towards its expected count by at most one half.
\<close>

theorem chi2_contingency_statistic:
  assumes "valid_table t"
  shows "\<exists>r. chi2_contingency sf t = Inr r \<and>
           expected_freqs r =
             map (\<lambda>i. map (\<lambda>j. Fin (expected_cell t i j)) [0..<ncols t]) [0..<length t] \<and>
           statistic r =
             Fin (if length t = 2 \<and> ncols t = 2 then yates_pearson t else pearson t)"
proof -
  have r: "rect t" using assms by (simp add: valid_table_def)
  have "expected_freq t = map (\<lambda>i. map (\<lambda>j. expected_cell t i j) [0..<ncols t]) [0..<length t]"
    using rect_expected [of t]
    by (intro nth_equalityI) (simp_all add: length_expected list_all_length expected_freq_nth)
  then have "map (map Fin) (expected_freq t) =
      map (\<lambda>i. map (\<lambda>j. Fin (expected_cell t i j)) [0..<ncols t]) [0..<length t]"
    by (simp add: comp_def)
  then show ?thesis
    unfolding chi2_contingency_valid [OF assms, of sf] chi2_sum_cells [OF r] by simp
qed

text \<open>
  A table with two rows and three columns: the statistic is its Pearson sum,
  \<open>7 / 25\<close>.
\<close>

theorem chi2_contingency_statistic_witness:
  "valid_table [[1, 2, 3], [4, 5, 6]] \<and>
   (\<exists>r. chi2_contingency sf_zero [[1, 2, 3], [4, 5, 6]] = Inr r \<and>
        statistic r = Fin (pearson [[1, 2, 3], [4, 5, 6]])) \<and>
   pearson [[1, 2, 3], [4, 5, 6]] = 7 / 25"
proof -
  have v: "valid_table [[1, 2, 3], [4, 5, 6]]"
    by (simp add: valid_table_def rect_def ncols_def row_sums_def col_sums_def
        numeral_2_eq_2 numeral_3_eq_3)
  have p: "pearson [[1, 2, 3], [4, 5, 6]] = 7 / 25"
    by (simp add: pearson_def cell_sum_def expected_cell_def
        row_sums_def col_sums_def ncols_def grand_total_def numeral_2_eq_2 numeral_3_eq_3
        power2_eq_square)
  from chi2_contingency_statistic [OF v, of sf_zero] v p show ?thesis
    by (auto simp: ncols_def)
qed

section \<open>Standardised residuals\<close>

lemma residual_row:
  "length a = length b \<Longrightarrow> list_all (\<lambda>x. 0 < x) b \<Longrightarrow>
   map2 residual_cell a (map Fin b) = map Fin (map2 (\<lambda>ob ex. (ob - ex) / sqrt ex) a b)"
  by (induction a b rule: list_induct2) (auto simp: fdiv_def)

lemma weighted_row:
  "length a = length b \<Longrightarrow> list_all (\<lambda>x. 0 < x) b \<Longrightarrow>
   sum_list (map2 (\<lambda>r ex. r * sqrt ex) (map2 (\<lambda>ob ex. (ob - ex) / sqrt ex) a b) b)
     = sum_list a - sum_list b"
  by (induction a b rule: list_induct2) auto

lemma residual_table:
  "list_all2 (\<lambda>a b. length a = length b) t e \<Longrightarrow> list_all (\<lambda>x. 0 < x) (concat e) \<Longrightarrow>
   standardised_residuals t (map (map Fin) e)
     = map (map Fin) (map2 (map2 (\<lambda>ob ex. (ob - ex) / sqrt ex)) t e)"
  unfolding standardised_residuals_def
  by (induction t e rule: list_all2_induct) (auto simp: residual_row)

lemma weighted_table:
  "list_all2 (\<lambda>a b. length a = length b) t e \<Longrightarrow> list_all (\<lambda>x. 0 < x) (concat e) \<Longrightarrow>
   sum_list (map2 (\<lambda>r ex. r * sqrt ex)
       (concat (map2 (map2 (\<lambda>ob ex. (ob - ex) / sqrt ex)) t e)) (concat e))
     = sum_list (row_sums t) - sum_list (row_sums e)"
proof (induction t e rule: list_all2_induct)
  case Nil
  then show ?case by (simp add: row_sums_def)
next
  case (Cons a t b e)
  then show ?case by (simp add: row_sums_def weighted_row)
qed

lemma sqrts: "sqrt 100 = 10" "sqrt 900 = 30" "sqrt 8100 = 90"
  by (rule real_sqrt_unique; simp)+

text \<open>
  Claim C4 says that the standardised residuals sum to about zero when the expected
  table keeps the totals of the observed one. The deviations \<open>observed - expected\<close>
  sum to zero; divided by the square roots of different expected counts they do not.
  The table with rows \<open>1000, 0\<close> and \<open>0, 9000\<close> has the expected counts
  \<open>100, 900\<close> and \<open>900, 8100\<close>, which keep every row and column total, and its
  standardised residuals \<open>90, -30, -30, 10\<close> sum to 40.
\<close>

theorem residuals_sum_counterexample:
  "valid_table [[1000, 0], [0, 9000]] \<and>
   expected_freq [[1000, 0], [0, 9000]] = [[100, 900], [900, 8100]] \<and>
   row_sums [[100, 900], [900, 8100]] = row_sums [[1000, 0], [0, 9000]] \<and>
   col_sums [[100, 900], [900, 8100]] = col_sums [[1000, 0], [0, 9000]] \<and>
   standardised_residuals [[1000, 0], [0, 9000]] [[Fin 100, Fin 900], [Fin 900, Fin 8100]]
     = [[Fin 90, Fin (- 30)], [Fin (- 30), Fin 10]] \<and>
   fsum (concat [[Fin 90, Fin (- 30)], [Fin (- 30), Fin 10]]) = Fin 40"
  by (simp add: valid_table_def rect_def ncols_def row_sums_def col_sums_def numeral_2_eq_2
      expected_freq_2x2 standardised_residuals_def fdiv_def sqrts fsum_def)

text \<open>
  Claim C4, amended. For every table and every table of expected counts of the same
  shape whose counts are all positive and whose row totals are those of the observed
  table, the standardised residuals are the finite numbers
  \<open>(observed - expected) / sqrt expected\<close>, and weighted by \<open>sqrt expected\<close>, that
  is as the deviations \<open>observed - expected\<close>, they sum to zero over all cells.
\<close>

theorem residuals_weighted_sum_zero:
  assumes "list_all2 (\<lambda>a b. length a = length b) t e"
    and "list_all (\<lambda>x. 0 < x) (concat e)"
    and "row_sums e = row_sums t"
  shows "standardised_residuals t (map (map Fin) e)
           = map (map Fin) (map2 (map2 (\<lambda>ob ex. (ob - ex) / sqrt ex)) t e) \<and>
         sum_list (map2 (\<lambda>r ex. r * sqrt ex)
             (concat (map2 (map2 (\<lambda>ob ex. (ob - ex) / sqrt ex)) t e)) (concat e)) = 0"
  using residual_table [OF assms(1,2)] weighted_table [OF assms(1,2)] assms(3) by simp

theorem residuals_weighted_sum_zero_witness:
  "list_all2 (\<lambda>a b. length a = length b) [[1000, 0], [0, 9000]] [[100, 900], [900, 8100]] \<and>
   list_all (\<lambda>x. 0 < x) (concat [[100, 900], [900, 8100 :: real]]) \<and>
   row_sums [[100, 900], [900, 8100]] = row_sums [[1000, 0], [0, 9000]] \<and>
   standardised_residuals [[1000, 0], [0, 9000]] (map (map Fin) [[100, 900], [900, 8100]])
     = [[Fin 90, Fin (- 30)], [Fin (- 30), Fin 10]] \<and>
   sum_list (map2 (\<lambda>r ex. r * sqrt ex) [90, - 30, - 30, 10] [100, 900, 900, 8100]) = 0"
proof -
  have h: "list_all2 (\<lambda>a b. length a = length b) [[1000, 0], [0, 9000]] [[100, 900], [900, 8100 :: real]]"
    "list_all (\<lambda>x. 0 < x) (concat [[100, 900], [900, 8100 :: real]])"
    "row_sums [[100, 900], [900, 8100]] = row_sums [[1000, 0], [0, 9000]]"
    by (simp_all add: row_sums_def)
  from residuals_weighted_sum_zero [OF h] h show ?thesis by (simp add: sqrts)
qed

section \<open>Goodness of fit\<close>

lemma sum_gof_expected:
  "sum_list (gof_expected ps obs) = sum_list ps * sum_list obs"
  unfolding gof_expected_def using sum_list_mult_const [of "\<lambda>p. p" "sum_list obs" ps] by simp

lemma terms_nth:
  "length a = length b \<Longrightarrow>
   terms a b = map (\<lambda>i. fdiv ((a ! i - b ! i)\<^sup>2) (b ! i)) [0..<length a]"
  unfolding terms_def by (rule nth_equalityI) simp_all

text \<open>
  Claim C7. For counts \<open>obs\<close> of length at least two, none negative, and expected
  proportions \<open>props\<close> of the same length that sum to one, the goodness-of-fit test
  of the notebook raises nothing, takes \<open>props[i] * sum obs\<close> as expected counts,
  returns the sum of \<open>(obs[i] - expected[i])\<^sup>2 / expected[i]\<close> as statistic, and
  computes the p-value with \<open>length - 1\<close> degrees of freedom.
\<close>

theorem goodness_of_fit_statistic:
  assumes "2 \<le> length obs" and "length props = length obs"
    and "list_all (\<lambda>x. 0 \<le> x) obs" and "sum_list props = 1"
  shows "goodness_of_fit sf props obs =
     (let ex = (\<lambda>i. props ! i * sum_list obs);
          stat = fsum (map (\<lambda>i. fdiv ((obs ! i - ex i)\<^sup>2) (ex i)) [0..<length obs])
      in Inr (stat, sf_flt (sf (real_of_int (int (length obs) - 1))) stat))"
proof -
  have l: "length obs = length (gof_expected props obs)"
    using assms(2) by (simp add: gof_expected_def)
  have b: "broadcast obs (gof_expected props obs)
      = Inr (obs, gof_expected props obs)"
    using l by (simp add: broadcast_def)
  have s: "sum_list (gof_expected props obs) = sum_list obs"
    using assms(4) by (simp add: sum_gof_expected)
  have t: "terms obs (gof_expected props obs) =
      map (\<lambda>i. fdiv ((obs ! i - props ! i * sum_list obs)\<^sup>2)
                 (props ! i * sum_list obs)) [0..<length obs]"
    unfolding terms_nth [OF l] using assms(2) by (simp add: gof_expected_def)
  show ?thesis
    by (simp add: goodness_of_fit_def chisquare_def b power_divergence_def s t
        diff_gt_tol_same Let_def)
qed

text \<open>
  The counts \<open>725, 193\<close> against equal proportions give \<open>141512 / 459\<close>, the
  308.3050 the notebook reports.
\<close>

theorem goodness_of_fit_statistic_witness:
  "2 \<le> length [725, 193 :: real] \<and> length [1 / 2, 1 / 2 :: real] = length [725, 193 :: real] \<and>
   list_all (\<lambda>x. 0 \<le> x) [725, 193 :: real] \<and> sum_list [1 / 2, 1 / 2 :: real] = 1 \<and>
   goodness_of_fit sf_zero [1 / 2, 1 / 2] [725, 193] = Inr (Fin (141512 / 459), Fin 0)"
proof -
  have h: "2 \<le> length [725, 193 :: real]" "length [1 / 2, 1 / 2 :: real] = length [725, 193 :: real]"
    "list_all (\<lambda>x. 0 \<le> x) [725, 193 :: real]" "sum_list [1 / 2, 1 / 2 :: real] = 1"
    by simp_all
  from goodness_of_fit_statistic [OF h, of sf_zero] h show ?thesis
    by (simp add: fsum_def fdiv_def numeral_2_eq_2 power2_eq_square)
qed

section \<open>One-way analysis of variance\<close>



section \<open>Levene's test in exact arithmetic\<close>

text \<open>
  The median of the library sorts the sample first.
\<close>

lemma median_examples:
  "median [3, 1, 10] = 3" "median [6, 2, 4] = 4" "median [4, 1, 3, 2] = 5 / 2"
  by (simp_all add: median_def)

text \<open>
  SciPy's \<^verbatim>\<open>levene\<close> does not call \<^verbatim>\<open>f_oneway\<close>: it computes its statistic by its
  own formula. In exact real arithmetic the two calls agree on every sequence of
  groups valid for the analysis of variance, with the observations replaced by their
  absolute deviations from the median or the mean of their group. The equality is not
  one of the floats the two routines return: they round differently, and groups whose
  deviations are constant up to rounding can give an infinity in one and NaN in the
  other. Claim C8, which is about the returned results being exactly the same, is a
  statement about double precision and is not stated over the reals of this model.
\<close>

lemma levene_is_anova_of_deviations:
  assumes "valid_groups gs"
  shows "levene f_sf c gs = f_oneway f_sf (deviations c gs)"
  unfolding levene_valid [OF assms] f_oneway_valid [OF valid_deviations [OF assms]]
  by (simp add: length_deviations length_concat_deviations)

text \<open>
  Two unsorted groups: the deviations from the medians \<open>3\<close> and \<open>4\<close> are
  \<open>0, 2, 7\<close> and \<open>2, 2, 0\<close>, and in exact arithmetic both calls give \<open>25 / 43\<close>.
\<close>

lemma levene_example:
  "valid_groups [[3, 1, 10], [6, 2, 4]] \<and>
   deviations Center_Median [[3, 1, 10], [6, 2, 4]] = [[0, 2, 7], [2, 2, 0]] \<and>
   levene f_sf_zero Center_Median [[3, 1, 10], [6, 2, 4]] = Inr (Fin (25 / 43), Fin 0) \<and>
   f_oneway f_sf_zero [[0, 2, 7], [2, 2, 0]] = Inr (Fin (25 / 43), Fin 0)"
proof -
  have v: "valid_groups [[3, 1, 10], [6, 2, 4]]" by (simp add: valid_groups_def)
  have d: "deviations Center_Median [[3, 1, 10], [6, 2, 4]] = [[0, 2, 7], [2, 2, 0]]"
    by (simp add: deviations_def median_examples)
  have v': "valid_groups [[0, 2, 7], [2, 2, 0]]" by (simp add: valid_groups_def)
  have "f_statistic [[0, 2, 7], [2, 2, 0]] = Fin (25 / 43)"
    by (simp add: f_statistic_def ss_between_def ss_within_def grand_mean_def mean_def
        fdiv_def power2_eq_square)
  then have "f_oneway f_sf_zero [[0, 2, 7], [2, 2, 0]] = Inr (Fin (25 / 43), Fin 0)"
    unfolding f_oneway_valid [OF v'] by simp
  with levene_is_anova_of_deviations [OF v, of f_sf_zero Center_Median] v d
  show ?thesis by simp
qed

section \<open>The two-sample t-test\<close>






text \<open>
  Claim C3, amended. The one-tailed p-value of the notebook is \<open>p_two_tailed / 2\<close>
  when the observed statistic is positive and \<open>1 - p_two_tailed / 2\<close> otherwise. With
  the two-sided p-value of the test and a symmetric distribution function this is
  \<open>1 - CDF t\<close> for every finite statistic \<open>t\<close>: always the upper tail, the
  direction being fixed by the order of the two groups in the call, and no expected
  sign is an input of the computation.
\<close>

theorem one_tailed_upper_tail:
  assumes "\<forall>x. cdf (- x) = 1 - cdf x"
  shows "one_tailed (Fin t) (two_sided cdf (Fin t)) = Fin (1 - cdf t)"
proof (cases "0 < t")
  case True
  then show ?thesis by (simp add: one_tailed_def)
next
  case False
  then have "\<bar>t\<bar> = - t" by simp
  with False assms show ?thesis by (simp add: one_tailed_def)
qed

lemma t_cdf_1_symmetric: "t_cdf_1 d (- x) = 1 - t_cdf_1 d x"
  by (simp add: t_cdf_1_def arctan_minus)

lemma t_cdf_1_values: "t_cdf_1 d 1 = 3 / 4" "t_cdf_1 d (- 1) = 1 / 4"
  by (simp_all add: t_cdf_1_def arctan_minus arctan_one)

text \<open>
  With one degree of freedom: the statistic \<open>1\<close> has the one-tailed p-value
  \<open>1 / 4\<close>, the statistic \<open>-1\<close> has \<open>3 / 4\<close>.
\<close>

theorem one_tailed_upper_tail_witness:
  "(\<forall>x. t_cdf_1 (Fin 1) (- x) = 1 - t_cdf_1 (Fin 1) x) \<and>
   one_tailed (Fin 1) (two_sided (t_cdf_1 (Fin 1)) (Fin 1)) = Fin (1 / 4) \<and>
   one_tailed (Fin (- 1)) (two_sided (t_cdf_1 (Fin 1)) (Fin (- 1))) = Fin (3 / 4)"
proof -
  have s: "\<forall>x. t_cdf_1 (Fin 1) (- x) = 1 - t_cdf_1 (Fin 1) x"
    by (simp add: t_cdf_1_symmetric)
  from one_tailed_upper_tail [OF s, of 1] one_tailed_upper_tail [OF s, of "- 1"] s
  show ?thesis by (simp add: t_cdf_1_values)
qed

text \<open>
  Claim C3 says that the caller's expected sign chooses between \<open>CDF t\<close> and
  \<open>1 - CDF t\<close>. A caller who expects a negative statistic would get \<open>CDF 1 = 3 / 4\<close>
  at \<open>t = 1\<close> with one degree of freedom; the notebook, which branches on the sign of
  the observed statistic, gives \<open>1 / 4\<close>.
\<close>

theorem one_tailed_sign_counterexample:
  "spec_one_tailed (t_cdf_1 (Fin 1)) (- 1) 1 = 3 / 4 \<and>
   one_tailed (Fin 1) (two_sided (t_cdf_1 (Fin 1)) (Fin 1)) = Fin (1 / 4)"
  by (simp add: spec_one_tailed_def one_tailed_def t_cdf_1_values)

section \<open>The notebooks from top to bottom\<close>

lemma levene_two_returns: "\<exists>w p. levene f_sf c [g1, g2] = Inr (w, p)"
  by (simp add: levene_def Let_def)

lemma ttest_ind_returns: "\<exists>r. ttest_ind t_cdf a b = Inr r"
  by (simp add: ttest_ind_def Let_def)

text \<open>
  Claim C2. In every run of the t-test notebook from top to bottom on data frames that
  have the columns the cells read, no cell raises, and the test of the two-tailed
  section, \<^verbatim>\<open>ttest_ind(group_2, group_1, equal_var=False)\<close>, is computed from the
  targets of the diabetes rows with sex \<open>2\<close>, bound in the one-tailed section and
  never bound again, and from the benign group of the breast cancer data. The
  malignant group is bound to \<^verbatim>\<open>group_0\<close> and is no argument of the test.
\<close>

theorem two_tailed_section_uses_diabetes_group:
  assumes "select_where diabetes ''sex'' 1 ''target'' = Inr sex_1"
    and "select_where diabetes ''sex'' 2 ''target'' = Inr sex_2"
    and "select_where breast_cancer ''target'' 0 ''mean radius'' = Inr malignant"
    and "select_where breast_cancer ''target'' 1 ''mean radius'' = Inr benign"
  shows "\<exists>env r. t_tests_notebook t_cdf f_sf diabetes breast_cancer = Inr env \<and>
           ttest_ind t_cdf sex_2 benign = Inr r \<and>
           result env = Some r \<and> t_stat env = Some (t_statistic r) \<and>
           p_two_tailed env = Some (t_pvalue r) \<and>
           group_0 env = Some malignant \<and> group_1 env = Some benign \<and>
           group_2 env = Some sex_2"
proof -
  obtain w1 p1 where l1: "levene f_sf Center_Median [sex_1, sex_2] = Inr (w1, p1)"
    using levene_two_returns by blast
  obtain w2 p2 where l2: "levene f_sf Center_Median [malignant, benign] = Inr (w2, p2)"
    using levene_two_returns by blast
  obtain r1 where r1: "ttest_ind t_cdf sex_2 sex_1 = Inr r1"
    using ttest_ind_returns by blast
  obtain r where r: "ttest_ind t_cdf sex_2 benign = Inr r"
    using ttest_ind_returns by blast
  show ?thesis
    by (simp add: t_tests_notebook_def t_env0_def cell_load_def cell_groups_diabetes_def
        cell_groups_cancer_def cell_levene_12_def cell_levene_01_def cell_ttest_def
        cell_one_tailed_def frame_of_def lookup_def assms l1 l2 r1 r)
qed

lemma example_groups:
  "select_where diabetes_rows ''sex'' 1 ''target'' = Inr [100, 120]"
  "select_where diabetes_rows ''sex'' 2 ''target'' = Inr [150, 152]"
  "select_where breast_cancer_rows ''target'' 0 ''mean radius'' = Inr [20, 22]"
  "select_where breast_cancer_rows ''target'' 1 ''mean radius'' = Inr [12, 12]"
  by (simp_all add: select_where_def diabetes_rows_def breast_cancer_rows_def)

lemma example_tests:
  "ttest_ind t_cdf_1 [150, 152] [12, 12] =
     Inr \<lparr>t_statistic = Fin 139, t_pvalue = Fin (2 * (1 - t_cdf_1 (Fin 1) 139)), t_df = Fin 1\<rparr>"
  "ttest_ind t_cdf_1 [20, 22] [12, 12] =
     Inr \<lparr>t_statistic = Fin 9, t_pvalue = Fin (2 * (1 - t_cdf_1 (Fin 1) 9)), t_df = Fin 1\<rparr>"
  by (simp_all add: ttest_ind_def var1_def mean_def Let_def fdiv_def)

text \<open>
  On the two small frames the notebook reports the statistic \<open>139\<close> of the diabetes
  group against the benign group; the malignant group against the benign group
  would give \<open>9\<close>.
\<close>

theorem two_tailed_section_uses_diabetes_group_witness:
  "select_where diabetes_rows ''sex'' 1 ''target'' = Inr [100, 120] \<and>
   select_where diabetes_rows ''sex'' 2 ''target'' = Inr [150, 152] \<and>
   select_where breast_cancer_rows ''target'' 0 ''mean radius'' = Inr [20, 22] \<and>
   select_where breast_cancer_rows ''target'' 1 ''mean radius'' = Inr [12, 12] \<and>
   (\<exists>env. t_tests_notebook t_cdf_1 f_sf_zero diabetes_rows breast_cancer_rows = Inr env \<and>
      group_0 env = Some [20, 22] \<and> t_stat env = Some (Fin 139)) \<and>
   (\<exists>r. ttest_ind t_cdf_1 [20, 22] [12, 12] = Inr r \<and> t_statistic r = Fin 9)"
proof -
  from two_tailed_section_uses_diabetes_group [OF example_groups, of t_cdf_1 f_sf_zero]
  show ?thesis by (auto simp: example_groups example_tests)
qed




end
